theory Spec2Isabelle
  imports Complex_Main "HOL-Library.Word" "HOL-Library.Monad_Syntax" "HOL-Library.Log_Nat"
begin

unbundle bit_operations_syntax

section \<open>Sentence model\<close>

text \<open>
  A sentence segment as the backend returns it and as the editor extends it
  (\<^verbatim>\<open>src/hooks/useDubbingTool.js\<close>, \<^verbatim>\<open>SentenceTimeline\<close>, \<^verbatim>\<open>AudioEditor.js\<close>).
  The field \<^verbatim>\<open>id\<close> is called \<open>sentence_id\<close> here. Optional string fields are
  \<open>None\<close> where the JavaScript object has no such property (reads as \<^verbatim>\<open>undefined\<close>).
\<close>

record sentence =
  sentence_id :: nat
  startTime :: real
  duration :: real
  originalText :: string
  translatedText :: string
  isRefined :: bool
  audioUrl :: "string option"
  modifiedAudioUrl :: "string option"
  dubbedAudio :: "string option"
  modifiedAudioPath :: "string option"
  refinedAt :: "string option"
  referenceAudioPath :: "string option"

text \<open>
  The partial object passed as \<^verbatim>\<open>updates\<close>: a field is \<open>None\<close> when the object
  literal does not mention it and \<open>Some v\<close> when it does. For the optional string
  fields \<open>Some None\<close> is a property that is present with the value \<^verbatim>\<open>undefined\<close>.
\<close>

record updates =
  set_id :: "nat option"
  set_startTime :: "real option"
  set_duration :: "real option"
  set_originalText :: "string option"
  set_translatedText :: "string option"
  set_isRefined :: "bool option"
  set_audioUrl :: "string option option"
  set_modifiedAudioUrl :: "string option option"
  set_dubbedAudio :: "string option option"
  set_modifiedAudioPath :: "string option option"
  set_refinedAt :: "string option option"
  set_referenceAudioPath :: "string option option"

definition no_updates :: updates where
  "no_updates = \<lparr> set_id = None, set_startTime = None, set_duration = None,
     set_originalText = None, set_translatedText = None, set_isRefined = None,
     set_audioUrl = None, set_modifiedAudioUrl = None, set_dubbedAudio = None,
     set_modifiedAudioPath = None, set_refinedAt = None, set_referenceAudioPath = None \<rparr>"

text \<open>One property of the object spread: the later object wins where it has the property.\<close>

definition overwrite :: "'a \<Rightarrow> 'a option \<Rightarrow> 'a" where
  "overwrite old new = (case new of None \<Rightarrow> old | Some v \<Rightarrow> v)"

text \<open>\<^verbatim>\<open>{ ...sentence, ...updates }\<close>\<close>

definition spread :: "sentence \<Rightarrow> updates \<Rightarrow> sentence" where
  "spread sentence upd =
     \<lparr> sentence_id = overwrite (sentence_id sentence) (set_id upd),
       startTime = overwrite (startTime sentence) (set_startTime upd),
       duration = overwrite (duration sentence) (set_duration upd),
       originalText = overwrite (originalText sentence) (set_originalText upd),
       translatedText = overwrite (translatedText sentence) (set_translatedText upd),
       isRefined = overwrite (isRefined sentence) (set_isRefined upd),
       audioUrl = overwrite (audioUrl sentence) (set_audioUrl upd),
       modifiedAudioUrl = overwrite (modifiedAudioUrl sentence) (set_modifiedAudioUrl upd),
       dubbedAudio = overwrite (dubbedAudio sentence) (set_dubbedAudio upd),
       modifiedAudioPath = overwrite (modifiedAudioPath sentence) (set_modifiedAudioPath upd),
       refinedAt = overwrite (refinedAt sentence) (set_refinedAt upd),
       referenceAudioPath =
         overwrite (referenceAudioPath sentence) (set_referenceAudioPath upd) \<rparr>"

text \<open>
  \<^verbatim>\<open>updateSentence\<close> of \<^verbatim>\<open>useDubbingTool.js\<close>: the state updater
  \<^verbatim>\<open>prevSentences.map(sentence => sentence.id === sentenceId ? {...sentence, ...updates} : sentence)\<close>.
\<close>

definition updateSentence :: "nat \<Rightarrow> updates \<Rightarrow> sentence list \<Rightarrow> sentence list" where
  "updateSentence sentenceId upd prevSentences =
     map (\<lambda>sentence. if sentence_id sentence = sentenceId then spread sentence upd else sentence)
       prevSentences"

subsection \<open>Arithmetic on numbers\<close>

text \<open>
  JavaScript numbers are IEEE 754 double-precision values. A finite one is modelled by
  the real number it denotes, and the result of an arithmetic operation is the exact
  result rounded to the nearest double, ties to the even significand.
  For \<open>x \<noteq> 0\<close>, \<open>binade x\<close> is the exponent \<open>e\<close> with \<open>2 powi e \<le> \<bar>x\<bar> < 2 powi (e + 1)\<close>,
  and \<open>ulp x\<close> the distance between neighbouring doubles there: 52 fraction bits, and
  the fixed spacing of the subnormal numbers below \<open>2 powi (- 1022)\<close>.
\<close>

definition binade :: "real \<Rightarrow> int" where
  "binade x =
     (if 1 \<le> \<bar>x\<bar> then bitlen \<lfloor>\<bar>x\<bar>\<rfloor> - 1 else - bitlen (\<lceil>1 / \<bar>x\<bar>\<rceil> - 1))"

definition ulp :: "real \<Rightarrow> real" where
  "ulp x = 2 powi (max (binade x) (- 1022) - 52)"

definition roundHalfEven :: "real \<Rightarrow> int" where
  "roundHalfEven q =
     (let f = \<lfloor>q\<rfloor>; d = q - of_int f
      in if d < 1 / 2 then f else if 1 / 2 < d then f + 1 else if even f then f else f + 1)"

text \<open>
  The double nearest to a real number. This is also how a decimal literal such as
  \<^verbatim>\<open>0.1\<close> in a JSON answer or in a test becomes a number. A result beyond the
  largest double would be an infinity; here it stays the rounded real, which compares
  with every finite double as the infinity does.
\<close>

definition toDouble :: "real \<Rightarrow> real" where
  "toDouble x = (if x = 0 then 0 else of_int (roundHalfEven (x / ulp x)) * ulp x)"

text \<open>\<^verbatim>\<open>a + b\<close> on two numbers.\<close>

definition add_double :: "real \<Rightarrow> real \<Rightarrow> real" where
  "add_double a b = toDouble (a + b)"

text \<open>
  \<^verbatim>\<open>getSentenceAtTime\<close> of \<^verbatim>\<open>AudioEditor.js\<close>: \<^verbatim>\<open>Array.prototype.find\<close> returns the
  first element that satisfies the predicate, or \<^verbatim>\<open>undefined\<close> (\<open>None\<close>). The right
  end of the test is the sum \<^verbatim>\<open>sentence.startTime + sentence.duration\<close> as the
  program computes it, a double.
\<close>

definition getSentenceAtTime :: "sentence list \<Rightarrow> real \<Rightarrow> sentence option" where
  "getSentenceAtTime sentences time =
     find (\<lambda>sentence. time \<ge> startTime sentence
                        \<and> time \<le> add_double (startTime sentence) (duration sentence))
       sentences"

text \<open>
  A segment that has only the three properties of the scenario objects
  \<^verbatim>\<open>{id, startTime, duration}\<close>; texts are empty and no audio is attached.
\<close>

definition segment :: "nat \<Rightarrow> real \<Rightarrow> real \<Rightarrow> sentence" where
  "segment i start dur =
     \<lparr> sentence_id = i, startTime = start, duration = dur, originalText = [],
       translatedText = [], isRefined = False, audioUrl = None, modifiedAudioUrl = None,
       dubbedAudio = None, modifiedAudioPath = None, refinedAt = None,
       referenceAudioPath = None \<rparr>"

section \<open>Refinement request flow\<close>

text \<open>
  The outcome of a \<^verbatim>\<open>fetch\<close>: the promise rejects (network failure), or it resolves
  to a response with a status code and a body. \<^verbatim>\<open>response.ok\<close> holds for the
  statuses 200 to 299.
\<close>

datatype 'a fetched = Rejected | Response nat 'a

definition ok :: "nat \<Rightarrow> bool" where
  "ok status \<longleftrightarrow> 200 \<le> status \<and> status \<le> 299"

text \<open>
  The JSON object that \<^verbatim>\<open>/api/reprocess-sentence\<close> answers with; a property the
  object does not have is \<open>None\<close>.
\<close>

record reprocess_result =
  result_sentenceAudioPath :: "string option"
  result_audioPath :: "string option"
  result_sentenceAudioUrl :: "string option"
  result_audioUrl :: "string option"
  result_modifiedAudioPath :: "string option"
  result_modifiedAudioUrl :: "string option"

text \<open>Truthiness of an optional string: \<^verbatim>\<open>undefined\<close> and the empty string are falsy.\<close>

definition truthy :: "string option \<Rightarrow> bool" where
  "truthy v = (case v of None \<Rightarrow> False | Some str \<Rightarrow> str \<noteq> [])"

text \<open>\<^verbatim>\<open>a || b\<close>\<close>

definition or_else :: "string option \<Rightarrow> string option \<Rightarrow> string option" where
  "or_else a b = (if truthy a then a else b)"

text \<open>
  \<^verbatim>\<open>handleDialogueRefine\<close> of the sentence timeline. \<open>refiningSentence\<close> is the
  component state (the segment the refiner was opened on, or \<^verbatim>\<open>null\<close>),
  \<open>onSentenceUpdate\<close> the callback prop (the application passes a wrapper of
  \<open>updateSentence\<close>), \<open>reprocess\<close> the outcome of the request to
  \<^verbatim>\<open>/api/reprocess-sentence\<close>, whose body is \<open>None\<close> when \<^verbatim>\<open>response.json()\<close>
  rejects, and \<open>isoNow\<close> the value of \<^verbatim>\<open>new Date().toISOString()\<close>. The function
  returns the sentence collection after all the updates it issued.
\<close>

definition handleDialogueRefine ::
  "sentence option \<Rightarrow> (nat \<Rightarrow> updates \<Rightarrow> sentence list \<Rightarrow> sentence list) option \<Rightarrow>
   reprocess_result option fetched \<Rightarrow> string \<Rightarrow> string \<Rightarrow> sentence list \<Rightarrow> sentence list" where
  "handleDialogueRefine refiningSentence onSentenceUpdate reprocess isoNow refinedText sentences =
     (case (refiningSentence, onSentenceUpdate) of
        (Some refining, Some update) \<Rightarrow>
          (let textOnly = no_updates\<lparr>set_translatedText := Some refinedText,
                                     set_isRefined := Some True\<rparr>;
               sentences1 = update (sentence_id refining) textOnly sentences
           in case reprocess of
                Rejected \<Rightarrow> update (sentence_id refining) textOnly sentences1
              | Response status body \<Rightarrow>
                  if ok status then
                    (case body of
                       None \<Rightarrow> update (sentence_id refining) textOnly sentences1
                     | Some result \<Rightarrow>
                         update (sentence_id refining)
                           (no_updates\<lparr>
                              set_translatedText := Some refinedText,
                              set_dubbedAudio :=
                                Some (or_else (result_sentenceAudioPath result)
                                        (result_audioPath result)),
                              set_audioUrl :=
                                Some (or_else (result_sentenceAudioUrl result)
                                        (result_audioUrl result)),
                              set_modifiedAudioPath := Some (result_modifiedAudioPath result),
                              set_modifiedAudioUrl := Some (result_modifiedAudioUrl result),
                              set_isRefined := Some True,
                              set_refinedAt := Some (Some isoNow)\<rparr>)
                           sentences1)
                  else sentences1)
      | _ \<Rightarrow> sentences)"

text \<open>The resynthesis request failed: no response, a status that is not ok, or a body that is not JSON.\<close>

definition resynthesis_failed :: "reprocess_result option fetched \<Rightarrow> bool" where
  "resynthesis_failed reprocess =
     (case reprocess of Rejected \<Rightarrow> True | Response status body \<Rightarrow> \<not> ok status \<or> body = None)"

section \<open>Audio engine\<close>

type_synonym byte = "8 word"

text \<open>
  A JavaScript number that need not be finite: the elements of the channel data of an
  audio buffer are 32-bit floats and may be infinite or \<^verbatim>\<open>NaN\<close>.
\<close>

datatype number = Num real | PosInfinity | NegInfinity | NaN

text \<open>
  A decoded \<^verbatim>\<open>AudioBuffer\<close>. \<open>frames\<close> is its \<^verbatim>\<open>length\<close> (sample frames per
  channel), \<open>channelData\<close> holds one array per channel, so \<^verbatim>\<open>numberOfChannels\<close> is
  the number of arrays, and \<open>buffer_duration\<close> is its \<^verbatim>\<open>duration\<close> in seconds.
\<close>

record audio_buffer =
  sampleRate :: real
  frames :: nat
  channelData :: "number list list"
  buffer_duration :: real

definition numberOfChannels :: "audio_buffer \<Rightarrow> nat" where
  "numberOfChannels audioBuffer = length (channelData audioBuffer)"

text \<open>
  The audio context, as far as the editor uses it. A buffer source created on the
  context is referred to by its position in \<open>ctx_nodes\<close>. A source plays from
  \<^verbatim>\<open>start\<close> until \<^verbatim>\<open>stop\<close> is called or its buffer ends; when it stops playing
  the context queues an \<^verbatim>\<open>ended\<close> event for it (Web Audio API,
  \<^verbatim>\<open>AudioScheduledSourceNode\<close>), which the event loop later delivers to the
  \<^verbatim>\<open>onended\<close> handler of the node. The editor installs two such handlers:
  \<open>ResetPlayback\<close> is the one \<^verbatim>\<open>playAudio\<close> installs
  (\<^verbatim>\<open>setIsPlaying(false); setCurrentTime(0)\<close>), \<open>LogFinished\<close> the one of
  \<^verbatim>\<open>playSentenceAudio\<close>, which only logs.
\<close>

datatype ended_handler = ResetPlayback | LogFinished

record source_node =
  node_buffer :: audio_buffer
  node_gain :: real
  node_offset :: real
  node_playing :: bool
  node_onended :: "ended_handler option"

record audio_context =
  ctx_currentTime :: real
  ctx_suspended :: bool
  ctx_nodes :: "source_node list"
  ctx_ended :: "nat list"

text \<open>The sources of the context that are playing.\<close>

definition activeSources :: "audio_context \<Rightarrow> source_node list" where
  "activeSources ctx = filter node_playing (ctx_nodes ctx)"

text \<open>
  \<^verbatim>\<open>source.stop()\<close> on the node \<open>n\<close>: a playing node stops and its \<^verbatim>\<open>ended\<close>
  event is queued; on a node that has stopped already the call does nothing.
\<close>

definition node_stop :: "nat \<Rightarrow> audio_context \<Rightarrow> audio_context" where
  "node_stop n ctx =
     (if n < length (ctx_nodes ctx) \<and> node_playing (ctx_nodes ctx ! n)
      then ctx\<lparr>ctx_nodes := (ctx_nodes ctx)[n := (ctx_nodes ctx ! n)\<lparr>node_playing := False\<rparr>],
               ctx_ended := ctx_ended ctx @ [n]\<rparr>
      else ctx)"

text \<open>
  What the closures of one render of \<^verbatim>\<open>AudioEditor\<close> see: the values of the state
  variables and props at that render. \<open>audioDuration\<close> is the state variable
  \<^verbatim>\<open>duration\<close>. A function defined in the component body reads these values from
  its own render, also after a \<^verbatim>\<open>setState\<close> call or an \<^verbatim>\<open>await\<close>.
\<close>

record render =
  isPlaying :: bool
  currentTime :: real
  audioDuration :: real
  volume :: real
  isMuted :: bool
  currentAudioType :: string
  sentences :: "sentence list"
  processedAudio :: "byte list option"

text \<open>
  The live editor: the current values of the state variables (what the next render will
  see), the refs, and the browser's pending callbacks that the editor scheduled.
  \<open>frameCallbacks\<close> are the pending \<^verbatim>\<open>requestAnimationFrame(updatePlaybackTime)\<close> callbacks
  with their handle, \<open>timers\<close> the pending \<^verbatim>\<open>setTimeout(() => playAudio(), delay)\<close>
  callbacks with their delay; each carries the render whose closure was scheduled.
  \<open>requests\<close> lists the URLs handed to \<^verbatim>\<open>fetch\<close> so far, oldest first.
\<close>

record editor = render +
  audioContextRef :: "audio_context option"
  audioBufferRef :: "audio_buffer option"
  sourceNodeRef :: "nat option"
  startTimeRef :: real
  animationFrameRef :: "nat option"
  frameCallbacks :: "(nat \<times> render) list"
  nextFrame :: nat
  timers :: "(nat \<times> render) list"
  requests :: "string list"

text \<open>
  The world outside the editor at the time of one operation: what a \<^verbatim>\<open>fetch\<close> of a
  URL yields (a rejected promise also stands for a body that cannot be read), what
  \<^verbatim>\<open>decodeAudioData\<close> makes of the bytes (\<open>None\<close> when it rejects), and the value of
  \<^verbatim>\<open>Date.now()\<close>, the milliseconds since the epoch.
\<close>

record env =
  fetch :: "string \<Rightarrow> byte list fetched"
  decodeAudioData :: "byte list \<Rightarrow> audio_buffer option"
  dateNow :: nat

text \<open>\<^verbatim>\<open>updatePlaybackTime\<close>, as the closure of the render \<open>r\<close>.\<close>

definition updatePlaybackTime :: "render \<Rightarrow> editor \<Rightarrow> editor" where
  "updatePlaybackTime r s =
     (case audioContextRef s of
        None \<Rightarrow> s
      | Some ctx \<Rightarrow>
          if isPlaying r then
            (let newTime = ctx_currentTime ctx - startTimeRef s;
                 s1 = s\<lparr>currentTime := max 0 newTime\<rparr>
             in if newTime \<ge> audioDuration r
                then s1\<lparr>isPlaying := False, currentTime := 0\<rparr>
                else s1\<lparr>animationFrameRef := Some (nextFrame s1),
                        frameCallbacks := frameCallbacks s1 @ [(nextFrame s1, r)],
                        nextFrame := nextFrame s1 + 1\<rparr>)
          else s)"

text \<open>
  The two statements \<^verbatim>\<open>if (sourceNodeRef.current) { sourceNodeRef.current.stop();
  sourceNodeRef.current = null; }\<close> that several functions share.
\<close>

definition stopSourceNode :: "editor \<Rightarrow> editor" where
  "stopSourceNode s =
     (case sourceNodeRef s of
        None \<Rightarrow> s
      | Some n \<Rightarrow> s\<lparr>audioContextRef := map_option (node_stop n) (audioContextRef s),
                    sourceNodeRef := None\<rparr>)"

text \<open>
  \<^verbatim>\<open>playAudio\<close>, as the closure of the render \<open>r\<close>. The offsets passed to
  \<^verbatim>\<open>source.start(0, currentTime)\<close> are never negative in the editor (the position
  is 0, a clamped product, \<^verbatim>\<open>Math.max(0, ...)\<close> or a start time), so the
  \<^verbatim>\<open>RangeError\<close> of a negative offset is not a case here.
\<close>

definition playAudio :: "render \<Rightarrow> editor \<Rightarrow> editor" where
  "playAudio r s =
     (case (audioContextRef s, audioBufferRef s) of
        (Some ctx0, Some audioBuffer) \<Rightarrow>
          (let ctx1 = (case sourceNodeRef s of None \<Rightarrow> ctx0 | Some n \<Rightarrow> node_stop n ctx0);
               ctx2 = ctx1\<lparr>ctx_suspended := False\<rparr>;
               source = \<lparr> node_buffer = audioBuffer,
                          node_gain = (if isMuted r then 0 else volume r),
                          node_offset = currentTime r,
                          node_playing = True,
                          node_onended = Some ResetPlayback \<rparr>;
               s1 = s\<lparr>audioContextRef := Some (ctx2\<lparr>ctx_nodes := ctx_nodes ctx2 @ [source]\<rparr>),
                       sourceNodeRef := Some (length (ctx_nodes ctx2)),
                       startTimeRef := ctx_currentTime ctx2 - currentTime r\<rparr>
           in updatePlaybackTime r (s1\<lparr>isPlaying := True\<rparr>))
      | _ \<Rightarrow> s)"

text \<open>\<^verbatim>\<open>pauseAudio\<close>; it reads no state variable.\<close>

definition pauseAudio :: "editor \<Rightarrow> editor" where
  "pauseAudio s =
     (let s1 = stopSourceNode s;
          s2 = (case animationFrameRef s1 of
                  None \<Rightarrow> s1
                | Some h \<Rightarrow> if h = 0 then s1
                            else s1\<lparr>frameCallbacks := filter (\<lambda>(h', _). h' \<noteq> h) (frameCallbacks s1)\<rparr>)
      in s2\<lparr>isPlaying := False\<rparr>)"

text \<open>
  The event loop delivers the oldest queued \<^verbatim>\<open>ended\<close> event to the handler of its
  node.
\<close>

definition dispatchEnded :: "editor \<Rightarrow> editor" where
  "dispatchEnded s =
     (case audioContextRef s of
        None \<Rightarrow> s
      | Some ctx \<Rightarrow>
          (case ctx_ended ctx of
             [] \<Rightarrow> s
           | n # rest \<Rightarrow>
               (let s1 = s\<lparr>audioContextRef := Some (ctx\<lparr>ctx_ended := rest\<rparr>)\<rparr>
                in if n < length (ctx_nodes ctx)
                      \<and> node_onended (ctx_nodes ctx ! n) = Some ResetPlayback
                   then s1\<lparr>isPlaying := False, currentTime := 0\<rparr>
                   else s1)))"

text \<open>
  The decimal digits of a natural number, as the template literal
  \<^verbatim>\<open>${Date.now()}\<close> renders an integer.
\<close>

fun decimal :: "nat \<Rightarrow> string" where
  "decimal n =
     (if 10 \<le> n then decimal (n div 10) @ [''0123456789'' ! (n mod 10)]
      else [''0123456789'' ! n])"

text \<open>Reading a decimal numeral back, used to show that the rendering loses nothing.\<close>

definition decimal_value :: "string \<Rightarrow> nat" where
  "decimal_value str = foldl (\<lambda>acc c. 10 * acc + (of_char c - 48)) 0 str"

text \<open>\<^verbatim>\<open>`${url}?t=${Date.now()}`\<close>\<close>

definition cacheBustedUrl :: "string \<Rightarrow> nat \<Rightarrow> string" where
  "cacheBustedUrl url now = url @ ''?t='' @ decimal now"

text \<open>
  \<^verbatim>\<open>loadAudioBuffer\<close>; \<open>audioFile\<close> is the content of the file. A missing audio
  context makes \<^verbatim>\<open>decodeAudioData\<close> a \<^verbatim>\<open>TypeError\<close>, which the \<^verbatim>\<open>catch\<close> logs.
\<close>

definition loadAudioBuffer :: "env \<Rightarrow> byte list \<Rightarrow> editor \<Rightarrow> editor" where
  "loadAudioBuffer env audioFile s =
     (case audioContextRef s of
        None \<Rightarrow> s
      | Some ctx \<Rightarrow>
          (case decodeAudioData env audioFile of
             None \<Rightarrow> s
           | Some audioBuffer \<Rightarrow>
               s\<lparr>audioBufferRef := Some audioBuffer,
                 audioDuration := buffer_duration audioBuffer,
                 currentTime := 0\<rparr>))"

text \<open>
  \<^verbatim>\<open>loadAudioFromUrl\<close>, as the closure of the render \<open>r\<close>. Every exception inside
  the \<^verbatim>\<open>try\<close> ends in the \<^verbatim>\<open>catch\<close>, which logs it; the function returns nothing
  in either case, so the result is the editor alone.
\<close>

definition loadAudioFromUrl :: "render \<Rightarrow> env \<Rightarrow> string \<Rightarrow> string \<Rightarrow> editor \<Rightarrow> editor" where
  "loadAudioFromUrl r env url audioType s =
     (let s1 = (if isPlaying r then pauseAudio s else s);
          s2 = stopSourceNode s1;
          s3 = s2\<lparr>requests := requests s2 @ [url]\<rparr>
      in case fetch env url of
           Rejected \<Rightarrow> s3
         | Response status body \<Rightarrow>
             if \<not> ok status then s3
             else
               (case audioContextRef s3 of
                  None \<Rightarrow> s3
                | Some ctx \<Rightarrow>
                    (case decodeAudioData env body of
                       None \<Rightarrow> s3
                     | Some audioBuffer \<Rightarrow>
                         s3\<lparr>audioBufferRef := Some audioBuffer,
                            audioDuration := buffer_duration audioBuffer,
                            currentAudioType := audioType,
                            currentTime := 0\<rparr>)))"

text \<open>
  \<^verbatim>\<open>playSentenceAudio\<close>, as the closure of the render \<open>r\<close>: the clip is fetched
  from \<^verbatim>\<open>sentence.audioUrl\<close> as it is, decoded, and played on a source of its own,
  which is stored in no ref.
\<close>

definition playSentenceAudio :: "render \<Rightarrow> env \<Rightarrow> sentence \<Rightarrow> editor \<Rightarrow> editor" where
  "playSentenceAudio r env sentence s =
     (case audioUrl sentence of
        None \<Rightarrow> s
      | Some url \<Rightarrow>
          if url = [] then s
          else
            (let s1 = s\<lparr>requests := requests s @ [url]\<rparr>
             in case fetch env url of
                  Rejected \<Rightarrow> s1
                | Response status body \<Rightarrow>
                    if \<not> ok status then s1
                    else
                      (case audioContextRef s1 of
                         None \<Rightarrow> s1
                       | Some ctx \<Rightarrow>
                           (case decodeAudioData env body of
                              None \<Rightarrow> s1
                            | Some audioBuffer \<Rightarrow>
                                (let source = \<lparr> node_buffer = audioBuffer,
                                        node_gain = (if isMuted r then 0 else volume r),
                                        node_offset = 0,
                                        node_playing = True,
                                        node_onended = Some LogFinished \<rparr>
                                 in s1\<lparr>audioContextRef :=
                                        Some (ctx\<lparr>ctx_nodes := ctx_nodes ctx @ [source]\<rparr>)\<rparr>)))))"

text \<open>\<^verbatim>\<open>sentences.find(s => s.modifiedAudioUrl)\<close>\<close>

definition sentenceWithModified :: "sentence list \<Rightarrow> sentence option" where
  "sentenceWithModified ss = find (\<lambda>s. truthy (modifiedAudioUrl s)) ss"

text \<open>\<^verbatim>\<open>loadModifiedFullAudio\<close>, as the closure of the render \<open>r\<close>.\<close>

definition loadModifiedFullAudio :: "render \<Rightarrow> env \<Rightarrow> editor \<Rightarrow> editor" where
  "loadModifiedFullAudio r env s =
     (case sentenceWithModified (sentences r) of
        None \<Rightarrow> s
      | Some sentence \<Rightarrow>
          (case modifiedAudioUrl sentence of
             None \<Rightarrow> s
           | Some url \<Rightarrow>
               if url = [] then s
               else loadAudioFromUrl r env (cacheBustedUrl url (dateNow env)) ''modified'' s))"

text \<open>
  \<^verbatim>\<open>loadCompleteAudio\<close>, as the closure of the render \<open>r\<close>; the first component is
  the boolean it returns. Neither load it awaits can throw, so its \<^verbatim>\<open>catch\<close> is
  never entered.
\<close>

definition loadCompleteAudio :: "render \<Rightarrow> env \<Rightarrow> editor \<Rightarrow> bool \<times> editor" where
  "loadCompleteAudio r env s =
     (case sentenceWithModified (sentences r) of
        Some sentence \<Rightarrow>
          (True, loadAudioFromUrl r env
                   (cacheBustedUrl (case modifiedAudioUrl sentence of None \<Rightarrow> [] | Some url \<Rightarrow> url)
                      (dateNow env))
                   ''complete'' s)
      | None \<Rightarrow>
          (case processedAudio r of
             Some audioFile \<Rightarrow> (True, loadAudioBuffer env audioFile s)
           | None \<Rightarrow> (False, s)))"

text \<open>
  \<^verbatim>\<open>forceLoadCompleteAudio\<close>, as the closure of the render \<open>r\<close>. The 100 ms wait
  between clearing the buffer and loading changes nothing in the editor.
\<close>

definition forceLoadCompleteAudio :: "render \<Rightarrow> env \<Rightarrow> editor \<Rightarrow> bool \<times> editor" where
  "forceLoadCompleteAudio r env s =
     (let s1 = (if isPlaying r then pauseAudio s else s);
          s2 = stopSourceNode s1;
          s3 = s2\<lparr>audioBufferRef := None, audioDuration := 0, currentTime := 0\<rparr>
      in loadCompleteAudio r env s3)"

text \<open>
  The mouse event of a click on the progress bar: \<^verbatim>\<open>e.clientX\<close> and the
  \<^verbatim>\<open>left\<close> and \<^verbatim>\<open>width\<close> of the bar's bounding rectangle.
\<close>

record mouse_event =
  clientX :: real
  rect_left :: real
  rect_width :: real

text \<open>
  \<^verbatim>\<open>Math.max(0, Math.min(1, clickX / rect.width))\<close>. For a bar of width zero the
  JavaScript quotient is not a real number: \<^verbatim>\<open>Infinity\<close> clamps to 1,
  \<^verbatim>\<open>-Infinity\<close> to 0, and \<^verbatim>\<open>0 / 0\<close> is \<^verbatim>\<open>NaN\<close>, which both \<^verbatim>\<open>Math.min\<close>
  and \<^verbatim>\<open>Math.max\<close> return; \<open>None\<close> stands for this \<^verbatim>\<open>NaN\<close>.
\<close>

definition percentage :: "real \<Rightarrow> real \<Rightarrow> real option" where
  "percentage clickX width =
     (if width \<noteq> 0 then Some (max 0 (min 1 (clickX / width)))
      else if clickX > 0 then Some 1
      else if clickX < 0 then Some 0
      else None)"

text \<open>
  \<^verbatim>\<open>handleSeek\<close>, as the closure of the render \<open>r\<close>. The result is \<open>None\<close> when the
  new position is \<^verbatim>\<open>NaN\<close>, which the real-valued position of this model does not
  represent.
\<close>

definition handleSeek :: "render \<Rightarrow> mouse_event \<Rightarrow> editor \<Rightarrow> editor option" where
  "handleSeek r e s =
     (if audioDuration r = 0 then Some s
      else
        (let clickX = clientX e - rect_left e
         in case percentage clickX (rect_width e) of
              None \<Rightarrow> None
            | Some pct \<Rightarrow>
                (let newTime = pct * audioDuration r;
                     s1 = s\<lparr>currentTime := newTime\<rparr>
                 in if isPlaying r
                    then Some ((pauseAudio s1)\<lparr>timers := timers (pauseAudio s1) @ [(50, r)]\<rparr>)
                    else Some s1)))"


section \<open>WAV encoding\<close>

text \<open>
  \<^verbatim>\<open>Math.min\<close> and \<^verbatim>\<open>Math.max\<close> of two numbers: \<^verbatim>\<open>NaN\<close> if either is
  \<^verbatim>\<open>NaN\<close>.
\<close>

fun Math_min :: "number \<Rightarrow> number \<Rightarrow> number" where
  "Math_min NaN y = NaN"
| "Math_min x NaN = NaN"
| "Math_min NegInfinity y = NegInfinity"
| "Math_min x NegInfinity = NegInfinity"
| "Math_min PosInfinity y = y"
| "Math_min x PosInfinity = x"
| "Math_min (Num a) (Num b) = Num (min a b)"

fun Math_max :: "number \<Rightarrow> number \<Rightarrow> number" where
  "Math_max NaN y = NaN"
| "Math_max x NaN = NaN"
| "Math_max PosInfinity y = PosInfinity"
| "Math_max x PosInfinity = PosInfinity"
| "Math_max NegInfinity y = y"
| "Math_max x NegInfinity = x"
| "Math_max (Num a) (Num b) = Num (max a b)"

text \<open>\<^verbatim>\<open>x < 0\<close>, which is false for \<^verbatim>\<open>NaN\<close>.\<close>

definition negative :: "number \<Rightarrow> bool" where
  "negative x = (case x of Num v \<Rightarrow> v < 0 | NegInfinity \<Rightarrow> True | _ \<Rightarrow> False)"

text \<open>\<^verbatim>\<open>x * c\<close> for a positive finite constant \<open>c\<close>, as both scale factors are.\<close>

definition times :: "number \<Rightarrow> real \<Rightarrow> number" where
  "times x c = (case x of Num v \<Rightarrow> Num (v * c) | other \<Rightarrow> other)"

text \<open>
  The value the inner loop hands to \<^verbatim>\<open>setInt16\<close> for the array element \<open>x\<close>:
  \<^verbatim>\<open>sample = Math.max(-1, Math.min(1, x))\<close>, then
  \<^verbatim>\<open>sample < 0 ? sample * 0x8000 : sample * 0x7FFF\<close>.
\<close>

definition pcm16 :: "number \<Rightarrow> number" where
  "pcm16 x =
     (let sample = Math_max (Num (- 1)) (Math_min (Num 1) x)
      in if negative sample then times sample 0x8000 else times sample 0x7FFF)"

text \<open>
  The integer conversion of the \<^verbatim>\<open>DataView\<close> setters: the number is truncated
  towards zero and taken modulo \<open>2 ^ w\<close>; \<^verbatim>\<open>NaN\<close> and the infinities become 0.
\<close>

definition trunc :: "real \<Rightarrow> int" where
  "trunc v = (if v < 0 then \<lceil>v\<rceil> else \<lfloor>v\<rfloor>)"

definition toWord :: "number \<Rightarrow> 'a::len word" where
  "toWord x = (case x of Num v \<Rightarrow> word_of_int (trunc v) | _ \<Rightarrow> 0)"

text \<open>
  Writing bytes into the buffer behind the view at a byte offset. A write that does not
  fit throws a \<^verbatim>\<open>RangeError\<close> (\<open>None\<close>).
\<close>

definition store :: "nat \<Rightarrow> byte list \<Rightarrow> byte list \<Rightarrow> byte list option" where
  "store byteOffset bytes view =
     (if byteOffset + length bytes \<le> length view
      then Some (take byteOffset view @ bytes @ drop (byteOffset + length bytes) view)
      else None)"

text \<open>The setters, with \<^verbatim>\<open>littleEndian = true\<close> where they take it.\<close>

definition setUint8 :: "nat \<Rightarrow> number \<Rightarrow> byte list \<Rightarrow> byte list option" where
  "setUint8 byteOffset v view = store byteOffset [toWord v] view"

definition setUint16 :: "nat \<Rightarrow> number \<Rightarrow> byte list \<Rightarrow> byte list option" where
  "setUint16 byteOffset v view =
     (let w = (toWord v :: 16 word) in store byteOffset [ucast w, ucast (drop_bit 8 w)] view)"

definition setInt16 :: "nat \<Rightarrow> number \<Rightarrow> byte list \<Rightarrow> byte list option" where
  "setInt16 byteOffset v view =
     (let w = (toWord v :: 16 word) in store byteOffset [ucast w, ucast (drop_bit 8 w)] view)"

definition setUint32 :: "nat \<Rightarrow> number \<Rightarrow> byte list \<Rightarrow> byte list option" where
  "setUint32 byteOffset v view =
     (let w = (toWord v :: 32 word)
      in store byteOffset
           [ucast w, ucast (drop_bit 8 w), ucast (drop_bit 16 w), ucast (drop_bit 24 w)] view)"

text \<open>
  \<^verbatim>\<open>writeString\<close>: \<^verbatim>\<open>view.setUint8(offset + i, string.charCodeAt(i))\<close> for every
  index of the string, in order.
\<close>

fun writeString :: "nat \<Rightarrow> string \<Rightarrow> byte list \<Rightarrow> byte list option" where
  "writeString offset [] view = Some view"
| "writeString offset (c # cs) view =
     (case setUint8 offset (Num (real (of_char c))) view of
        None \<Rightarrow> None
      | Some view' \<Rightarrow> writeString (offset + 1) cs view')"

text \<open>
  Reading a typed array at an index: beyond the end the read is \<^verbatim>\<open>undefined\<close>,
  which \<^verbatim>\<open>Math.min\<close> converts to \<^verbatim>\<open>NaN\<close>.
\<close>

definition element :: "number list \<Rightarrow> nat \<Rightarrow> number" where
  "element array i = (if i < length array then array ! i else NaN)"

text \<open>
  The inner loop of \<^verbatim>\<open>audioBufferToWav\<close>, over the channels of frame \<open>i\<close>, and the
  outer loop over the frames. Both return the offset and the view they end with.
\<close>

function channelLoop ::
  "audio_buffer \<Rightarrow> nat \<Rightarrow> nat \<Rightarrow> nat \<Rightarrow> byte list \<Rightarrow> (nat \<times> byte list) option" where
  "channelLoop audioBuffer i channel offset view =
     (if channel < numberOfChannels audioBuffer then
        (case setInt16 offset (pcm16 (element (channelData audioBuffer ! channel) i)) view of
           None \<Rightarrow> None
         | Some view' \<Rightarrow> channelLoop audioBuffer i (channel + 1) (offset + 2) view')
      else Some (offset, view))"
  by pat_completeness auto
termination
  by (relation "measure (\<lambda>(audioBuffer, i, channel, offset, view).
        numberOfChannels audioBuffer - channel)") auto

function frameLoop ::
  "audio_buffer \<Rightarrow> nat \<Rightarrow> nat \<Rightarrow> byte list \<Rightarrow> (nat \<times> byte list) option" where
  "frameLoop audioBuffer i offset view =
     (if i < frames audioBuffer then
        (case channelLoop audioBuffer i 0 offset view of
           None \<Rightarrow> None
         | Some (offset', view') \<Rightarrow> frameLoop audioBuffer (i + 1) offset' view')
      else Some (offset, view))"
  by pat_completeness auto
termination
  by (relation "measure (\<lambda>(audioBuffer, i, offset, view). frames audioBuffer - i)") auto

declare channelLoop.simps [simp del] frameLoop.simps [simp del]

text \<open>The thirteen header writes of \<^verbatim>\<open>audioBufferToWav\<close>, in the order of the source.\<close>

definition writeHeader :: "audio_buffer \<Rightarrow> byte list \<Rightarrow> byte list option" where
  "writeHeader audioBuffer buffer =
     (let numChannels = real (numberOfChannels audioBuffer);
          rate = sampleRate audioBuffer;
          len = real (frames audioBuffer)
      in do {
        view \<leftarrow> writeString 0 ''RIFF'' buffer;
        view \<leftarrow> setUint32 4 (Num (36 + len * numChannels * 2)) view;
        view \<leftarrow> writeString 8 ''WAVE'' view;
        view \<leftarrow> writeString 12 ''fmt '' view;
        view \<leftarrow> setUint32 16 (Num 16) view;
        view \<leftarrow> setUint16 20 (Num 1) view;
        view \<leftarrow> setUint16 22 (Num numChannels) view;
        view \<leftarrow> setUint32 24 (Num rate) view;
        view \<leftarrow> setUint32 28 (Num (rate * numChannels * 2)) view;
        view \<leftarrow> setUint16 32 (Num (numChannels * 2)) view;
        view \<leftarrow> setUint16 34 (Num 16) view;
        view \<leftarrow> writeString 36 ''data'' view;
        setUint32 40 (Num (len * numChannels * 2)) view
      })"

text \<open>
  \<^verbatim>\<open>audioBufferToWav\<close>: the zero-filled \<^verbatim>\<open>ArrayBuffer\<close> of
  \<^verbatim>\<open>44 + length * numChannels * 2\<close> bytes, the header, the samples from offset 44;
  the result is the content of the blob.
\<close>

definition audioBufferToWav :: "audio_buffer \<Rightarrow> byte list option" where
  "audioBufferToWav audioBuffer =
     (let numChannels = numberOfChannels audioBuffer;
          len = frames audioBuffer;
          buffer = replicate (44 + len * numChannels * 2) 0
      in do {
        view \<leftarrow> writeHeader audioBuffer buffer;
        (offset, view) \<leftarrow> frameLoop audioBuffer 0 44 view;
        Some view
      })"

subsection \<open>The layout of the file\<close>

text \<open>Little-endian bytes of a 16-bit and of a 32-bit value, and the bytes of a string.\<close>

definition le16 :: "16 word \<Rightarrow> byte list" where
  "le16 w = [ucast w, ucast (drop_bit 8 w)]"

definition le32 :: "32 word \<Rightarrow> byte list" where
  "le32 w = [ucast w, ucast (drop_bit 8 w), ucast (drop_bit 16 w), ucast (drop_bit 24 w)]"

definition ascii :: "string \<Rightarrow> byte list" where
  "ascii str = map (\<lambda>c. toWord (Num (real (of_char c)))) str"

text \<open>The 44 bytes of the header.\<close>

definition wavHeader :: "audio_buffer \<Rightarrow> byte list" where
  "wavHeader audioBuffer =
     (let numChannels = real (numberOfChannels audioBuffer);
          rate = sampleRate audioBuffer;
          len = real (frames audioBuffer)
      in ascii ''RIFF'' @ le32 (toWord (Num (36 + len * numChannels * 2)))
         @ ascii ''WAVE'' @ ascii ''fmt '' @ le32 (toWord (Num 16)) @ le16 (toWord (Num 1))
         @ le16 (toWord (Num numChannels)) @ le32 (toWord (Num rate))
         @ le32 (toWord (Num (rate * numChannels * 2))) @ le16 (toWord (Num (numChannels * 2)))
         @ le16 (toWord (Num 16)) @ ascii ''data'' @ le32 (toWord (Num (len * numChannels * 2))))"

text \<open>
  The bytes of frame \<open>i\<close> from the channel \<open>channel\<close> on, and the bytes of all frames
  from frame \<open>i\<close> on: two bytes per sample, the channels of a frame next to each other.
\<close>

definition frameBytes :: "audio_buffer \<Rightarrow> nat \<Rightarrow> nat \<Rightarrow> byte list" where
  "frameBytes audioBuffer i channel =
     concat (map (\<lambda>c. le16 (toWord (pcm16 (element (channelData audioBuffer ! c) i))))
               [channel ..< numberOfChannels audioBuffer])"

definition wavSamples :: "audio_buffer \<Rightarrow> nat \<Rightarrow> byte list" where
  "wavSamples audioBuffer i =
     concat (map (\<lambda>j. frameBytes audioBuffer j 0) [i ..< frames audioBuffer])"

section \<open>Example inputs\<close>

text \<open>The refs and state variables right after the component has mounted.\<close>

definition mounted :: editor where
  "mounted =
     \<lparr> isPlaying = False, currentTime = 0, audioDuration = 0, volume = 1, isMuted = False,
       currentAudioType = ''original'', sentences = [], processedAudio = None,
       audioContextRef = Some \<lparr> ctx_currentTime = 0, ctx_suspended = True, ctx_nodes = [],
                                 ctx_ended = [] \<rparr>,
       audioBufferRef = None, sourceNodeRef = None, startTimeRef = 0,
       animationFrameRef = None, frameCallbacks = [], nextFrame = 1, timers = [], requests = [] \<rparr>"

text \<open>The render that shows the editor \<open>s\<close>: its closures see the values of \<open>s\<close>.\<close>

definition snapshot :: "editor \<Rightarrow> render" where
  "snapshot s = render.truncate s"

text \<open>A silent mono buffer of the given duration with no frames.\<close>

definition clip :: "real \<Rightarrow> audio_buffer" where
  "clip d = \<lparr> sampleRate = 44100, frames = 0, channelData = [[]], buffer_duration = d \<rparr>"

text \<open>
  A server that answers every request with status 200 and audio that decodes to a clip
  of \<open>d\<close> seconds, and a network that is down; \<open>now\<close> is the clock reading.
\<close>

definition serving :: "real \<Rightarrow> nat \<Rightarrow> env" where
  "serving d now =
     \<lparr> fetch = (\<lambda>url. Response 200 []), decodeAudioData = (\<lambda>bytes. Some (clip d)),
       dateNow = now \<rparr>"

definition offline :: "nat \<Rightarrow> env" where
  "offline now =
     \<lparr> fetch = (\<lambda>url. Rejected), decodeAudioData = (\<lambda>bytes. None), dateNow = now \<rparr>"

text \<open>The number of playing sources of the editor's audio context.\<close>

definition activeCount :: "editor \<Rightarrow> nat" where
  "activeCount s = (case audioContextRef s of None \<Rightarrow> 0 | Some ctx \<Rightarrow> length (activeSources ctx))"

text \<open>The editor after a ten-second dub has been decoded into the buffer.\<close>

definition loaded :: editor where
  "loaded = loadAudioBuffer (serving 10 0) [] mounted"

text \<open>
  The same editor once the second of two sentences has been refined and carries the
  URL of the full modified mix.
\<close>

definition refined :: editor where
  "refined = loaded\<lparr>sentences :=
     [segment 1 0 2,
      (segment 2 2 3)\<lparr>isRefined := True,
                         modifiedAudioUrl := Some ''/api/download/modified_full.wav''\<rparr>]\<rparr>"

text \<open>A sentence with a clip of its own.\<close>

definition clipSentence :: sentence where
  "clipSentence = (segment 1 0 2)\<lparr>audioUrl := Some ''/api/download/sentence_1.wav''\<rparr>"

text \<open>The loaded editor showing two sentences, the first with a clip of its own.\<close>

definition withClip :: editor where
  "withClip = loaded\<lparr>sentences := [clipSentence, segment 2 2 3]\<rparr>"




section \<open>Predicates used in the statements\<close>

text \<open>
  A load of \<open>url\<close> fails: the fetch is rejected, the status is not ok, or the bytes do
  not decode.
\<close>

definition load_fails :: "env \<Rightarrow> string \<Rightarrow> bool" where
  "load_fails env url =
     (case fetch env url of
        Rejected \<Rightarrow> True
      | Response status body \<Rightarrow> \<not> ok status \<or> decodeAudioData env body = None)"

text \<open>Every playing source of the context is the one that \<open>sourceNodeRef\<close> holds.\<close>

definition tracked :: "editor \<Rightarrow> bool" where
  "tracked s =
     (case audioContextRef s of
        None \<Rightarrow> True
      | Some ctx \<Rightarrow>
          (\<forall>n < length (ctx_nodes ctx).
             node_playing (ctx_nodes ctx ! n) \<longrightarrow> sourceNodeRef s = Some n))"

section \<open>Properties of the sentence model\<close>

lemma overwrite_simps [simp]:
  "overwrite old None = old"
  "overwrite old (Some v) = v"
  by (simp_all add: overwrite_def)

lemma updateSentence_length: "length (updateSentence i u ss) = length ss"
  by (simp add: updateSentence_def)

lemma updateSentence_nth:
  "k < length ss \<Longrightarrow>
   updateSentence i u ss ! k = (if sentence_id (ss ! k) = i then spread (ss ! k) u else ss ! k)"
  by (simp add: updateSentence_def)

lemma updateSentence_absent:
  "i \<notin> sentence_id ` set ss \<Longrightarrow> updateSentence i u ss = ss"
  by (induction ss) (auto simp: updateSentence_def)

text \<open>
  C7. \<open>updateSentence\<close> keeps the length and the order of the collection, replaces a
  segment whose id matches by the merge of that segment with the given fields, leaves
  every other segment as it is, and changes nothing when no segment has the id. In the
  merged segment a field that the partial object names has the given value and every
  field it does not name keeps its value.
\<close>

theorem updateSentence_merges_and_frames:
  "length (updateSentence i u ss) = length ss
   \<and> (\<forall>k < length ss.
        (sentence_id (ss ! k) = i \<longrightarrow> updateSentence i u ss ! k = spread (ss ! k) u)
        \<and> (sentence_id (ss ! k) \<noteq> i \<longrightarrow> updateSentence i u ss ! k = ss ! k))
   \<and> (i \<notin> sentence_id ` set ss \<longrightarrow> updateSentence i u ss = ss)
   \<and> sentence_id (spread s u) = (case set_id u of None \<Rightarrow> sentence_id s | Some v \<Rightarrow> v)
   \<and> startTime (spread s u) = (case set_startTime u of None \<Rightarrow> startTime s | Some v \<Rightarrow> v)
   \<and> duration (spread s u) = (case set_duration u of None \<Rightarrow> duration s | Some v \<Rightarrow> v)
   \<and> originalText (spread s u) =
       (case set_originalText u of None \<Rightarrow> originalText s | Some v \<Rightarrow> v)
   \<and> translatedText (spread s u) =
       (case set_translatedText u of None \<Rightarrow> translatedText s | Some v \<Rightarrow> v)
   \<and> isRefined (spread s u) = (case set_isRefined u of None \<Rightarrow> isRefined s | Some v \<Rightarrow> v)
   \<and> audioUrl (spread s u) = (case set_audioUrl u of None \<Rightarrow> audioUrl s | Some v \<Rightarrow> v)
   \<and> modifiedAudioUrl (spread s u) =
       (case set_modifiedAudioUrl u of None \<Rightarrow> modifiedAudioUrl s | Some v \<Rightarrow> v)
   \<and> dubbedAudio (spread s u) =
       (case set_dubbedAudio u of None \<Rightarrow> dubbedAudio s | Some v \<Rightarrow> v)
   \<and> modifiedAudioPath (spread s u) =
       (case set_modifiedAudioPath u of None \<Rightarrow> modifiedAudioPath s | Some v \<Rightarrow> v)
   \<and> refinedAt (spread s u) = (case set_refinedAt u of None \<Rightarrow> refinedAt s | Some v \<Rightarrow> v)
   \<and> referenceAudioPath (spread s u) =
       (case set_referenceAudioPath u of None \<Rightarrow> referenceAudioPath s | Some v \<Rightarrow> v)"
  by (simp add: updateSentence_length updateSentence_nth updateSentence_absent spread_def
      overwrite_def)

theorem updateSentence_merges_and_frames_witness:
  "updateSentence 1 (no_updates\<lparr>set_translatedText := Some ''X''\<rparr>) [segment 1 0 2, segment 2 2 3] ! 0
     = spread (segment 1 0 2) (no_updates\<lparr>set_translatedText := Some ''X''\<rparr>)
   \<and> updateSentence 1 (no_updates\<lparr>set_translatedText := Some ''X''\<rparr>) [segment 1 0 2, segment 2 2 3] ! 1
     = segment 2 2 3
   \<and> translatedText (spread (segment 1 0 2) (no_updates\<lparr>set_translatedText := Some ''X''\<rparr>)) = ''X''
   \<and> duration (spread (segment 1 0 2) (no_updates\<lparr>set_translatedText := Some ''X''\<rparr>)) = 2
   \<and> 7 \<notin> sentence_id ` set [segment 1 0 2, segment 2 2 3]
   \<and> updateSentence 7 (no_updates\<lparr>set_translatedText := Some ''X''\<rparr>) [segment 1 0 2, segment 2 2 3]
     = [segment 1 0 2, segment 2 2 3]"
  using updateSentence_merges_and_frames
          [of 1 "no_updates\<lparr>set_translatedText := Some ''X''\<rparr>"
              "[segment 1 0 2, segment 2 2 3]" "segment 1 0 2"]
        updateSentence_merges_and_frames
          [of 7 "no_updates\<lparr>set_translatedText := Some ''X''\<rparr>"
              "[segment 1 0 2, segment 2 2 3]" "segment 1 0 2"]
  by (simp add: segment_def no_updates_def All_less_Suc2 less_Suc_eq)

subsection \<open>Rounding to doubles\<close>

text \<open>
  \<open>binade\<close> is the binary exponent, and \<open>toDouble\<close> returns a multiple of \<open>ulp\<close> that
  is at most half an \<open>ulp\<close> away.
\<close>

lemma binade_bounds:
  assumes "x \<noteq> 0"
  shows "2 powi binade x \<le> \<bar>x\<bar>" and "\<bar>x\<bar> < 2 powi (binade x + 1)"
proof -
  have "2 powi binade x \<le> \<bar>x\<bar> \<and> \<bar>x\<bar> < 2 powi (binade x + 1)"
  proof (cases "1 \<le> \<bar>x\<bar>")
    case True
    define n where "n = \<lfloor>\<bar>x\<bar>\<rfloor>"
    have n: "0 < n" using True by (simp add: n_def)
    define k where "k = nat (bitlen n - 1)"
    have one: "1 \<le> bitlen n" using n by (simp add: bitlen_ge_iff_power)
    from bitlen_bounds [OF n] have lo: "2 ^ k \<le> n" and hi: "n < 2 ^ Suc k"
      using one by (simp_all add: k_def nat_diff_distrib Suc_nat_eq_nat_zadd1)
    have b: "binade x = int k" using True one by (simp add: binade_def n_def k_def)
    have "real_of_int (2 ^ k) \<le> real_of_int n" using lo by linarith
    also have "\<dots> \<le> \<bar>x\<bar>" by (simp add: n_def)
    finally have l: "2 ^ k \<le> \<bar>x\<bar>" by simp
    from hi have "n + 1 \<le> 2 ^ Suc k" by simp
    then have "real_of_int (n + 1) \<le> real_of_int (2 ^ Suc k)" by linarith
    moreover have "\<bar>x\<bar> < real_of_int (n + 1)" by (simp add: n_def)
    ultimately have h: "\<bar>x\<bar> < 2 ^ Suc k" by simp
    have "int k + 1 = int (Suc k)" by simp
    with l h b show ?thesis by (simp only: power_int_of_nat)
  next
    case False
    define y where "y = 1 / \<bar>x\<bar>"
    have xpos: "0 < \<bar>x\<bar>" using assms by simp
    have y1: "1 < y" using False xpos by (simp add: y_def)
    define n where "n = \<lceil>y\<rceil> - 1"
    have n: "0 < n" using y1 by (simp add: n_def less_ceiling_iff)
    have ny: "real_of_int n < y" "y \<le> real_of_int n + 1"
      by (simp_all add: n_def) (linarith+)?
    define k where "k = nat (bitlen n - 1)"
    have one: "1 \<le> bitlen n" using n by (simp add: bitlen_ge_iff_power)
    from bitlen_bounds [OF n] have lo: "2 ^ k \<le> n" and hi: "n < 2 ^ Suc k"
      using one by (simp_all add: k_def nat_diff_distrib Suc_nat_eq_nat_zadd1)
    have b: "binade x = - int (Suc k)"
      using False one by (simp add: binade_def n_def y_def k_def)
    have "(2::real) ^ k \<le> real_of_int n"
      using lo of_int_le_iff [of "2 ^ k" n, where ?'a = real] by simp
    with ny have ylo: "2 ^ k < y" by linarith
    from hi have "n + 1 \<le> 2 ^ Suc k" by simp
    then have "real_of_int (n + 1) \<le> real_of_int (2 ^ Suc k)" by linarith
    with ny have yhi: "y \<le> 2 ^ Suc k" by simp
    have x: "\<bar>x\<bar> = 1 / y" using xpos by (simp add: y_def)
    have l: "1 / 2 ^ Suc k \<le> \<bar>x\<bar>"
      unfolding x using yhi y1 by (simp add: frac_le)
    have h: "\<bar>x\<bar> < 1 / 2 ^ k"
      unfolding x using ylo by (simp add: frac_less2)
    have p1: "(2::real) powi (- int (Suc k)) = 1 / 2 ^ Suc k"
      by (simp only: power_int_minus_divide power_int_of_nat)
    have "- int (Suc k) + 1 = - int k" by simp
    then have p2: "(2::real) powi (- int (Suc k) + 1) = 1 / 2 ^ k"
      by (simp only: power_int_minus_divide power_int_of_nat)
    from l h show ?thesis unfolding b p1 p2 by simp
  qed
  then show "2 powi binade x \<le> \<bar>x\<bar>" and "\<bar>x\<bar> < 2 powi (binade x + 1)" by simp_all
qed

lemma roundHalfEven_near: "\<bar>real_of_int (roundHalfEven q) - q\<bar> \<le> 1 / 2"
  unfolding roundHalfEven_def Let_def by (auto simp: abs_le_iff)

lemma ulp_pos: "0 < ulp x"
  by (simp add: ulp_def)

lemma toDouble_near: "\<bar>toDouble x - x\<bar> \<le> ulp x / 2"
proof (cases "x = 0")
  case True
  then show ?thesis using ulp_pos [of x] by (simp add: toDouble_def)
next
  case False
  have "\<bar>real_of_int (roundHalfEven (x / ulp x)) - x / ulp x\<bar> * ulp x \<le> 1 / 2 * ulp x"
    using roundHalfEven_near [of "x / ulp x"] ulp_pos [of x]
    by (intro mult_right_mono) simp_all
  moreover have "\<bar>real_of_int (roundHalfEven (x / ulp x)) - x / ulp x\<bar> * ulp x
      = \<bar>real_of_int (roundHalfEven (x / ulp x)) * ulp x - x\<bar>"
  proof -
    have "\<bar>real_of_int (roundHalfEven (x / ulp x)) - x / ulp x\<bar> * ulp x
          = \<bar>(real_of_int (roundHalfEven (x / ulp x)) - x / ulp x) * ulp x\<bar>"
      using ulp_pos [of x] by (simp add: abs_mult)
    also have "(real_of_int (roundHalfEven (x / ulp x)) - x / ulp x) * ulp x
          = real_of_int (roundHalfEven (x / ulp x)) * ulp x - x"
      using ulp_pos [of x] by (simp add: left_diff_distrib)
    finally show ?thesis .
  qed
  ultimately show ?thesis using False by (simp add: toDouble_def)
qed

text \<open>
  Small integers and their sums are doubles, so the sums of the scenario are exact; the
  sum of the doubles nearest to 0.1 and 0.2 is the double nearest to
  0.30000000000000004, which lies above the double nearest to 0.3.
\<close>

lemma add_double_examples:
  "add_double 0 2 = 2"
  "add_double 2 3 = 5"
  "toDouble 0.1 = 7205759403792794 / 2 ^ 56"
  "add_double (toDouble 0.1) (toDouble 0.2) = toDouble 0.30000000000000004"
  "toDouble 0.3 < toDouble 0.30000000000000004"
  "toDouble 0.1 \<le> toDouble 0.30000000000000004"
  by code_simp+

text \<open>
  C8. With the sentences \<^verbatim>\<open>[{id:1,startTime:0,duration:2},{id:2,startTime:2,duration:3}]\<close>
  and the time 2.5, \<open>getSentenceAtTime\<close> returns the second segment, whose id is 2.
\<close>

theorem getSentenceAtTime_scenario:
  "getSentenceAtTime [segment 1 0 2, segment 2 2 3] 2.5 = Some (segment 2 2 3)
   \<and> sentence_id (segment 2 2 3) = 2"
  by (simp add: getSentenceAtTime_def segment_def add_double_examples)

text \<open>
  C9. \<open>getSentenceAtTime\<close> returns a segment exactly when that segment is the first one
  in list order whose closed interval from \<^verbatim>\<open>startTime\<close> to
  \<^verbatim>\<open>startTime + duration\<close> contains the time (both ends included), where the right
  end is the sum as the program computes it; it returns nothing exactly when no
  interval contains the time.
\<close>

theorem getSentenceAtTime_first_closed_interval:
  "(getSentenceAtTime ss t = Some s \<longleftrightarrow>
      (\<exists>k < length ss. ss ! k = s
          \<and> startTime s \<le> t \<and> t \<le> add_double (startTime s) (duration s)
          \<and> (\<forall>j < k. \<not> (startTime (ss ! j) \<le> t
                          \<and> t \<le> add_double (startTime (ss ! j)) (duration (ss ! j))))))
   \<and> (getSentenceAtTime ss t = None \<longleftrightarrow>
      (\<forall>s \<in> set ss. \<not> (startTime s \<le> t \<and> t \<le> add_double (startTime s) (duration s))))"
  unfolding getSentenceAtTime_def by (auto simp: find_Some_iff find_None_iff)

text \<open>
  At the boundary 2 shared by the two segments of the scenario the first segment is
  returned, at the right end 5 of the second segment the second, and at 6 none. With
  the segments (0.1, 0.2) and (0.30000000000000004, 1), the time 0.30000000000000004 is
  the computed right end of the first segment and the start of the second: the first
  is returned.
\<close>

theorem getSentenceAtTime_first_closed_interval_witness:
  "getSentenceAtTime [segment 1 0 2, segment 2 2 3] 2 = Some (segment 1 0 2)
   \<and> getSentenceAtTime [segment 1 0 2, segment 2 2 3] 5 = Some (segment 2 2 3)
   \<and> getSentenceAtTime [segment 1 0 2, segment 2 2 3] 6 = None
   \<and> getSentenceAtTime
        [segment 1 (toDouble 0.1) (toDouble 0.2), segment 2 (toDouble 0.30000000000000004) 1]
        (toDouble 0.30000000000000004)
       = Some (segment 1 (toDouble 0.1) (toDouble 0.2))"
proof -
  let ?ss = "[segment 1 0 2, segment 2 2 3]"
  let ?tt = "[segment 1 (toDouble 0.1) (toDouble 0.2),
              segment 2 (toDouble 0.30000000000000004) 1]"
  have a: "getSentenceAtTime ?ss 2 = Some (segment 1 0 2)"
    using getSentenceAtTime_first_closed_interval [of ?ss 2 "segment 1 0 2"]
    by (auto simp: segment_def add_double_examples)
  have b: "getSentenceAtTime ?ss 5 = Some (segment 2 2 3)"
    using getSentenceAtTime_first_closed_interval [of ?ss 5 "segment 2 2 3"]
    by (auto simp: segment_def add_double_examples less_Suc_eq intro!: exI [of _ 1])
  have c: "getSentenceAtTime ?ss 6 = None"
    using getSentenceAtTime_first_closed_interval [of ?ss 6 "segment 1 0 2"]
    by (simp add: segment_def add_double_examples)
  define x y z :: real
    where "x = toDouble 0.1" and "y = toDouble 0.2" and "z = toDouble 0.30000000000000004"
  have le: "x \<le> z" "z \<le> add_double x y"
    unfolding x_def y_def z_def by code_simp+
  have "getSentenceAtTime [segment 1 x y, segment 2 z 1] z = Some (segment 1 x y)"
    using le getSentenceAtTime_first_closed_interval
      [of "[segment 1 x y, segment 2 z 1]" z "segment 1 x y"]
    by (auto simp: segment_def)
  then have d: "getSentenceAtTime ?tt (toDouble 0.30000000000000004)
           = Some (segment 1 (toDouble 0.1) (toDouble 0.2))"
    unfolding x_def y_def z_def .
  from a b c d show ?thesis by simp
qed

section \<open>Properties of the refinement flow\<close>

lemma updateSentence_textOnly_nth:
  assumes "k < length ss"
  shows "updateSentence i (no_updates\<lparr>set_translatedText := Some txt, set_isRefined := Some True\<rparr>) ss ! k
         = (if sentence_id (ss ! k) = i
            then (ss ! k)\<lparr>translatedText := txt, isRefined := True\<rparr> else ss ! k)"
  using assms by (simp add: updateSentence_nth spread_def no_updates_def)

lemma handleDialogueRefine_failed_nth:
  assumes "resynthesis_failed reprocess" and "k < length ss"
  shows "handleDialogueRefine (Some refining) (Some updateSentence) reprocess isoNow txt ss ! k
         = (if sentence_id (ss ! k) = sentence_id refining
            then (ss ! k)\<lparr>translatedText := txt, isRefined := True\<rparr> else ss ! k)"
  using assms
  by (auto simp: handleDialogueRefine_def resynthesis_failed_def Let_def
      updateSentence_textOnly_nth updateSentence_length split: fetched.splits option.splits)

text \<open>
  C4. When the refiner is open on a segment and the resynthesis request fails (the
  request is rejected, the status is not ok, or the body cannot be parsed), every
  segment of the collection that has the target id ends with the refined text as its
  \<open>translatedText\<close> and with the \<open>audioUrl\<close> and \<open>modifiedAudioUrl\<close> it had before
  the request; the collection keeps its length.
\<close>

theorem handleDialogueRefine_audio_failure_keeps_text:
  assumes "resynthesis_failed reprocess"
    and "k < length ss" and "sentence_id (ss ! k) = sentence_id refining"
  shows "length (handleDialogueRefine (Some refining) (Some updateSentence) reprocess isoNow txt ss)
           = length ss
    \<and> translatedText
        (handleDialogueRefine (Some refining) (Some updateSentence) reprocess isoNow txt ss ! k) = txt
    \<and> audioUrl
        (handleDialogueRefine (Some refining) (Some updateSentence) reprocess isoNow txt ss ! k)
        = audioUrl (ss ! k)
    \<and> modifiedAudioUrl
        (handleDialogueRefine (Some refining) (Some updateSentence) reprocess isoNow txt ss ! k)
        = modifiedAudioUrl (ss ! k)"
proof -
  have "length (handleDialogueRefine (Some refining) (Some updateSentence) reprocess isoNow txt ss)
          = length ss"
    by (simp add: handleDialogueRefine_def Let_def updateSentence_length
        split: fetched.splits option.splits)
  moreover have "handleDialogueRefine (Some refining) (Some updateSentence) reprocess isoNow txt ss ! k
      = (ss ! k)\<lparr>translatedText := txt, isRefined := True\<rparr>"
    using assms by (simp add: handleDialogueRefine_failed_nth)
  ultimately show ?thesis by simp
qed

theorem handleDialogueRefine_audio_failure_keeps_text_witness:
  "resynthesis_failed (Response 500 None)
   \<and> translatedText (handleDialogueRefine (Some (segment 2 2 3)) (Some updateSentence)
        (Response 500 None) ''2025-01-01T00:00:00.000Z'' ''Hello''
        [segment 1 0 2, (segment 2 2 3)\<lparr>audioUrl := Some ''/api/download/s2.wav''\<rparr>] ! 1) = ''Hello''
   \<and> audioUrl (handleDialogueRefine (Some (segment 2 2 3)) (Some updateSentence)
        (Response 500 None) ''2025-01-01T00:00:00.000Z'' ''Hello''
        [segment 1 0 2, (segment 2 2 3)\<lparr>audioUrl := Some ''/api/download/s2.wav''\<rparr>] ! 1)
       = Some ''/api/download/s2.wav''
   \<and> modifiedAudioUrl (handleDialogueRefine (Some (segment 2 2 3)) (Some updateSentence)
        (Response 500 None) ''2025-01-01T00:00:00.000Z'' ''Hello''
        [segment 1 0 2, (segment 2 2 3)\<lparr>audioUrl := Some ''/api/download/s2.wav''\<rparr>] ! 1) = None"
proof -
  have f: "resynthesis_failed (Response 500 None)"
    by (simp add: resynthesis_failed_def)
  show ?thesis
    using f handleDialogueRefine_audio_failure_keeps_text
      [of "Response 500 None" 1
          "[segment 1 0 2, (segment 2 2 3)\<lparr>audioUrl := Some ''/api/download/s2.wav''\<rparr>]"
          "segment 2 2 3" "''2025-01-01T00:00:00.000Z''" "''Hello''"]
    by (simp add: segment_def)
qed

section \<open>Properties of the audio engine\<close>

subsection \<open>What the shared steps leave alone\<close>

lemma snapshot_fields [simp]:
  "isPlaying (snapshot s) = isPlaying s"
  "currentTime (snapshot s) = currentTime s"
  "audioDuration (snapshot s) = audioDuration s"
  "sentences (snapshot s) = sentences s"
  "processedAudio (snapshot s) = processedAudio s"
  by (simp_all add: snapshot_def render.truncate_def)

lemma stopSourceNode_fields [simp]:
  "audioBufferRef (stopSourceNode s) = audioBufferRef s"
  "audioDuration (stopSourceNode s) = audioDuration s"
  "currentTime (stopSourceNode s) = currentTime s"
  "currentAudioType (stopSourceNode s) = currentAudioType s"
  "isPlaying (stopSourceNode s) = isPlaying s"
  "requests (stopSourceNode s) = requests s"
  "sourceNodeRef (stopSourceNode s) = None"
  "animationFrameRef (stopSourceNode s) = animationFrameRef s"
  "frameCallbacks (stopSourceNode s) = frameCallbacks s"
  by (simp_all add: stopSourceNode_def split: option.splits)

lemma pauseAudio_fields [simp]:
  "audioBufferRef (pauseAudio s) = audioBufferRef s"
  "audioDuration (pauseAudio s) = audioDuration s"
  "currentTime (pauseAudio s) = currentTime s"
  "currentAudioType (pauseAudio s) = currentAudioType s"
  "isPlaying (pauseAudio s) = False"
  "requests (pauseAudio s) = requests s"
  "sourceNodeRef (pauseAudio s) = None"
  by (simp_all add: pauseAudio_def Let_def split: option.splits)

lemma updatePlaybackTime_context [simp]:
  "audioContextRef (updatePlaybackTime r s) = audioContextRef s"
  "sourceNodeRef (updatePlaybackTime r s) = sourceNodeRef s"
  "audioBufferRef (updatePlaybackTime r s) = audioBufferRef s"
  by (simp_all add: updatePlaybackTime_def Let_def split: option.splits)

lemma loadAudioFromUrl_requests:
  "requests (loadAudioFromUrl r env url ty s) = requests s @ [url]"
  by (simp add: loadAudioFromUrl_def Let_def split: fetched.splits option.splits)

lemma loadAudioFromUrl_failed:
  assumes "load_fails env url"
  shows "audioBufferRef (loadAudioFromUrl r env url ty s) = audioBufferRef s"
    and "audioDuration (loadAudioFromUrl r env url ty s) = audioDuration s"
    and "currentAudioType (loadAudioFromUrl r env url ty s) = currentAudioType s"
    and "currentTime (loadAudioFromUrl r env url ty s) = currentTime s"
  using assms
  by (auto simp: loadAudioFromUrl_def load_fails_def Let_def split: fetched.splits option.splits)

lemma loadAudioFromUrl_loaded:
  assumes "fetch env url = Response status body" and "ok status"
    and "decodeAudioData env body = Some audioBuffer" and "audioContextRef s \<noteq> None"
  shows "audioBufferRef (loadAudioFromUrl r env url ty s) = Some audioBuffer"
    and "audioDuration (loadAudioFromUrl r env url ty s) = buffer_duration audioBuffer"
    and "currentTime (loadAudioFromUrl r env url ty s) = 0"
  using assms
  by (auto simp: loadAudioFromUrl_def Let_def pauseAudio_def stopSourceNode_def
      split: option.splits)

subsection \<open>One source per \<open>playAudio\<close>\<close>

lemma filter_none_playing:
  assumes "\<forall>m < length xs. \<not> node_playing (xs ! m)"
  shows "filter node_playing xs = []"
  using assms by (auto simp: filter_empty_conv in_set_conv_nth)

lemma node_stop_silences:
  assumes "\<forall>m < length (ctx_nodes ctx). node_playing (ctx_nodes ctx ! m) \<longrightarrow> m = n"
  shows "filter node_playing (ctx_nodes (node_stop n ctx)) = []"
proof (rule filter_none_playing, intro allI impI)
  fix m assume "m < length (ctx_nodes (node_stop n ctx))"
  then have m: "m < length (ctx_nodes ctx)" by (simp add: node_stop_def split: if_splits)
  show "\<not> node_playing (ctx_nodes (node_stop n ctx) ! m)"
  proof (cases "m = n")
    case True
    with m show ?thesis by (simp add: node_stop_def)
  next
    case False
    with m assms have "\<not> node_playing (ctx_nodes ctx ! m)" by blast
    with m False show ?thesis by (simp add: node_stop_def)
  qed
qed

text \<open>
  When every playing source is the tracked one, \<open>playAudio\<close> on a loaded editor leaves
  exactly one playing source, which is again the tracked one.
\<close>

lemma playAudio_one_source:
  assumes "tracked s" and "audioContextRef s = Some ctx0" and "audioBufferRef s = Some b"
  shows "activeCount (playAudio r s) = 1" and "tracked (playAudio r s)"
    and "audioContextRef (playAudio r s) \<noteq> None" and "audioBufferRef (playAudio r s) = Some b"
proof -
  define ctx1 where "ctx1 = (case sourceNodeRef s of None \<Rightarrow> ctx0 | Some n \<Rightarrow> node_stop n ctx0)"
  have quiet: "filter node_playing (ctx_nodes ctx1) = []"
  proof (cases "sourceNodeRef s")
    case None
    with assms have "\<forall>m < length (ctx_nodes ctx0). \<not> node_playing (ctx_nodes ctx0 ! m)"
      by (auto simp: tracked_def)
    with None show ?thesis by (simp add: ctx1_def filter_none_playing)
  next
    case (Some n)
    with assms have "\<forall>m < length (ctx_nodes ctx0). node_playing (ctx_nodes ctx0 ! m) \<longrightarrow> m = n"
      by (auto simp: tracked_def)
    with Some show ?thesis by (simp add: ctx1_def node_stop_silences)
  qed
  then have none: "\<forall>m < length (ctx_nodes ctx1). \<not> node_playing (ctx_nodes ctx1 ! m)"
    by (auto simp: filter_empty_conv)
  show "activeCount (playAudio r s) = 1"
    using assms quiet
    by (simp add: playAudio_def activeCount_def activeSources_def Let_def ctx1_def [symmetric])
  show "tracked (playAudio r s)"
    using assms none
    by (auto simp: playAudio_def tracked_def Let_def ctx1_def [symmetric] nth_append)
  show "audioContextRef (playAudio r s) \<noteq> None" "audioBufferRef (playAudio r s) = Some b"
    using assms by (simp_all add: playAudio_def Let_def)
qed

text \<open>Calling \<open>playAudio\<close> twice in succession leaves exactly one playing source.\<close>

lemma playAudio_twice_one_source:
  assumes "tracked s" and "audioContextRef s = Some ctx0" and "audioBufferRef s = Some b"
  shows "activeCount (playAudio r2 (playAudio r1 s)) = 1"
proof -
  from playAudio_one_source [OF assms, of r1]
  obtain ctx where "tracked (playAudio r1 s)" "audioContextRef (playAudio r1 s) = Some ctx"
    "audioBufferRef (playAudio r1 s) = Some b"
    by auto
  then show ?thesis by (rule playAudio_one_source)
qed

text \<open>
  C1. The claim asks for at most one playing source also when a sentence clip is
  played. \<open>playSentenceAudio\<close> stops nothing and stores its source in no ref: on the
  loaded editor, \<open>playAudio\<close> leaves one playing source, and playing the clip of a
  sentence during that playback leaves two, of which \<open>sourceNodeRef\<close> holds only the
  first.
\<close>

theorem playSentenceAudio_overlaps_playback:
  "activeCount (playAudio (snapshot loaded) loaded) = 1
   \<and> activeCount (playSentenceAudio (snapshot (playAudio (snapshot loaded) loaded)) (serving 2 0)
        clipSentence (playAudio (snapshot loaded) loaded)) = 2
   \<and> sourceNodeRef (playSentenceAudio (snapshot (playAudio (snapshot loaded) loaded)) (serving 2 0)
        clipSentence (playAudio (snapshot loaded) loaded)) = Some 0"
  by code_simp

subsection \<open>Pausing\<close>

text \<open>
  \<open>pauseAudio\<close> itself writes no position, but stopping a playing source queues its
  \<^verbatim>\<open>ended\<close> event, and the handler that \<open>playAudio\<close> installed resets the position.
\<close>

lemma pauseAudio_then_ended:
  assumes "audioContextRef s = Some ctx" and "sourceNodeRef s = Some n"
    and "n < length (ctx_nodes ctx)" and "node_playing (ctx_nodes ctx ! n)"
    and "node_onended (ctx_nodes ctx ! n) = Some ResetPlayback" and "ctx_ended ctx = []"
  shows "currentTime (dispatchEnded (pauseAudio s)) = 0"
  using assms
  by (simp add: dispatchEnded_def pauseAudio_def stopSourceNode_def node_stop_def Let_def
      split: option.splits)

text \<open>
  C2. The claim asks that the position stays where it was when playback is paused. On
  the loaded editor at position 3, \<open>playAudio\<close> starts a source at 3; \<open>pauseAudio\<close>
  stops it (no source is playing afterwards) and leaves the position at 3, with the
  \<^verbatim>\<open>ended\<close> event of the stopped source queued; delivering that event runs the
  handler of \<open>playAudio\<close> and the position is 0.
\<close>

theorem pauseAudio_position_reset_by_ended:
  "currentTime (playAudio (snapshot (loaded\<lparr>currentTime := 3\<rparr>)) (loaded\<lparr>currentTime := 3\<rparr>)) = 3
   \<and> activeCount (pauseAudio
        (playAudio (snapshot (loaded\<lparr>currentTime := 3\<rparr>)) (loaded\<lparr>currentTime := 3\<rparr>))) = 0
   \<and> currentTime (pauseAudio
        (playAudio (snapshot (loaded\<lparr>currentTime := 3\<rparr>)) (loaded\<lparr>currentTime := 3\<rparr>))) = 3
   \<and> map_option ctx_ended (audioContextRef (pauseAudio
        (playAudio (snapshot (loaded\<lparr>currentTime := 3\<rparr>)) (loaded\<lparr>currentTime := 3\<rparr>)))) = Some [0]
   \<and> currentTime (dispatchEnded (pauseAudio
        (playAudio (snapshot (loaded\<lparr>currentTime := 3\<rparr>)) (loaded\<lparr>currentTime := 3\<rparr>)))) = 0"
  by code_simp

subsection \<open>Failed loads\<close>

lemma find_truthy_url:
  assumes "sentenceWithModified ss = Some sentence"
  obtains url where "modifiedAudioUrl sentence = Some url" and "url \<noteq> []"
  using assms
  by (auto simp: sentenceWithModified_def find_Some_iff truthy_def split: option.splits)

lemma sentences_refined:
  "sentenceWithModified (sentences (snapshot refined))
   = Some ((segment 2 2 3)\<lparr>isRefined := True,
                            modifiedAudioUrl := Some ''/api/download/modified_full.wav''\<rparr>)"
  by code_simp

lemma forceLoadCompleteAudio_failed:
  assumes "sentenceWithModified (sentences r) = Some sentence"
    and "modifiedAudioUrl sentence = Some url"
    and "load_fails env (cacheBustedUrl url (dateNow env))"
  shows "audioBufferRef (snd (forceLoadCompleteAudio r env s)) = None"
    and "audioDuration (snd (forceLoadCompleteAudio r env s)) = 0"
  using assms
  by (simp_all add: forceLoadCompleteAudio_def loadCompleteAudio_def Let_def
      loadAudioFromUrl_failed)

text \<open>
  C3, as the claim states it, fails for \<open>forceLoadCompleteAudio\<close>: the editor holds a
  ten-second buffer, the network is down, and after the call the buffer is gone, the
  duration is 0, and the call has returned \<open>True\<close>.
\<close>

theorem forceLoadCompleteAudio_loses_buffer:
  "audioBufferRef refined = Some (clip 10) \<and> audioDuration refined = 10
   \<and> load_fails (offline 0) (cacheBustedUrl ''/api/download/modified_full.wav'' 0)
   \<and> fst (forceLoadCompleteAudio (snapshot refined) (offline 0) refined) = True
   \<and> audioBufferRef (snd (forceLoadCompleteAudio (snapshot refined) (offline 0) refined)) = None
   \<and> audioDuration (snd (forceLoadCompleteAudio (snapshot refined) (offline 0) refined)) = 0"
  by code_simp

text \<open>
  C3, amended. When the fetch fails or the bytes do not decode, \<open>loadAudioFromUrl\<close>
  leaves the loaded buffer and its duration as they were, and \<open>loadAudioBuffer\<close>, whose
  only failure is the decoding, leaves the whole editor as it was.
  \<open>forceLoadCompleteAudio\<close> clears the buffer and the duration before it loads, so after
  a failed load of the modified mix the editor holds no buffer and the duration is 0.
\<close>

theorem failed_load_keeps_or_clears_buffer:
  "(load_fails env url \<longrightarrow>
      audioBufferRef (loadAudioFromUrl r env url audioType s) = audioBufferRef s
      \<and> audioDuration (loadAudioFromUrl r env url audioType s) = audioDuration s)
   \<and> (decodeAudioData env audioFile = None \<longrightarrow> loadAudioBuffer env audioFile s = s)
   \<and> (sentenceWithModified (sentences r) = Some sentence
        \<and> modifiedAudioUrl sentence = Some murl
        \<and> load_fails env (cacheBustedUrl murl (dateNow env)) \<longrightarrow>
      audioBufferRef (snd (forceLoadCompleteAudio r env s)) = None
      \<and> audioDuration (snd (forceLoadCompleteAudio r env s)) = 0)"
  by (auto simp: loadAudioFromUrl_failed forceLoadCompleteAudio_failed loadAudioBuffer_def
      split: option.splits)

theorem failed_load_keeps_or_clears_buffer_witness:
  "load_fails (offline 0) ''/api/download/dub.wav?t=0''
   \<and> audioBufferRef (loadAudioFromUrl (snapshot refined) (offline 0) ''/api/download/dub.wav?t=0''
        ''original'' refined) = Some (clip 10)
   \<and> audioDuration (loadAudioFromUrl (snapshot refined) (offline 0) ''/api/download/dub.wav?t=0''
        ''original'' refined) = 10
   \<and> decodeAudioData (offline 0) [] = None
   \<and> loadAudioBuffer (offline 0) [] refined = refined
   \<and> audioBufferRef (snd (forceLoadCompleteAudio (snapshot refined) (offline 0) refined)) = None
   \<and> audioDuration (snd (forceLoadCompleteAudio (snapshot refined) (offline 0) refined)) = 0"
proof -
  have f: "load_fails (offline 0) url" for url
    by (simp add: load_fails_def offline_def)
  have d: "decodeAudioData (offline 0) [] = None"
    by (simp add: offline_def)
  have m: "modifiedAudioUrl ((segment 2 2 3)\<lparr>isRefined := True,
      modifiedAudioUrl := Some ''/api/download/modified_full.wav''\<rparr>)
      = Some ''/api/download/modified_full.wav''"
    by simp
  have b: "audioBufferRef refined = Some (clip 10)" "audioDuration refined = 10"
    by code_simp+
  show ?thesis
    using f d b
      failed_load_keeps_or_clears_buffer
        [of "offline 0" "''/api/download/dub.wav?t=0''" "snapshot refined" "''original''" refined
            "[]" "(segment 2 2 3)\<lparr>isRefined := True,
               modifiedAudioUrl := Some ''/api/download/modified_full.wav''\<rparr>"
            "''/api/download/modified_full.wav''"]
      sentences_refined m
    by simp
qed

subsection \<open>Cache-defeating parameter\<close>

lemma digit_value: "d < 10 \<Longrightarrow> of_char (''0123456789'' ! d) - 48 = (d::nat)"
proof -
  assume "d < 10"
  then consider "d = 0" | "d = 1" | "d = 2" | "d = 3" | "d = 4"
    | "d = 5" | "d = 6" | "d = 7" | "d = 8" | "d = 9"
    by atomize_elim arith
  then show ?thesis by cases simp_all
qed

lemma decimal_value_decimal: "decimal_value (decimal n) = n"
proof (induction n rule: decimal.induct)
  case (1 n)
  show ?case
  proof (cases "n < 10")
    case True
    then show ?thesis
      by (subst decimal.simps) (simp add: decimal_value_def digit_value)
  next
    case False
    with 1 have "decimal_value (decimal (n div 10)) = n div 10" by simp
    with False show ?thesis
      by (subst decimal.simps) (simp add: decimal_value_def digit_value)
  qed
qed

lemma decimal_inj: "decimal m = decimal n \<longleftrightarrow> m = n"
  by (metis decimal_value_decimal)

lemma cacheBustedUrl_inj: "cacheBustedUrl url a = cacheBustedUrl url b \<longleftrightarrow> a = b"
  by (simp add: cacheBustedUrl_def decimal_inj del: decimal.simps)

lemma loadModifiedFullAudio_requests:
  assumes "sentenceWithModified (sentences r) = Some sentence"
    and "modifiedAudioUrl sentence = Some url"
  shows "requests (loadModifiedFullAudio r env s) = requests s @ [cacheBustedUrl url (dateNow env)]"
proof -
  from assms obtain "url \<noteq> []" by (auto elim: find_truthy_url)
  with assms show ?thesis
    by (simp add: loadModifiedFullAudio_def loadAudioFromUrl_requests)
qed

lemma loadModifiedFullAudio_sentences [simp]:
  "sentences (loadModifiedFullAudio r env s) = sentences s"
  by (simp add: loadModifiedFullAudio_def loadAudioFromUrl_def pauseAudio_def stopSourceNode_def
      Let_def split: option.splits fetched.splits)

lemma playSentenceAudio_requests:
  assumes "audioUrl sentence = Some url" and "url \<noteq> []"
  shows "requests (playSentenceAudio r env sentence s) = requests s @ [url]"
  using assms
  by (simp add: playSentenceAudio_def Let_def split: fetched.splits option.splits)

lemma withClip_facts:
  "requests withClip = []"
  "audioUrl clipSentence = Some ''/api/download/sentence_1.wav''"
  "getSentenceAtTime (sentences withClip) (currentTime withClip) = Some clipSentence"
  by code_simp+

text \<open>
  C5. The claim asks that every remote load of an audio variant carries a
  cache-defeating parameter that differs between two loads of the same URL. The loads
  that go through \<open>loadAudioFromUrl\<close> are given \<^verbatim>\<open>?t=\<close> and the clock reading by
  their callers (the modified mix is requested as
  \<^verbatim>\<open>/api/download/modified_full.wav?t=1700000000000\<close>), but \<open>playSentenceAudio\<close>
  fetches \<^verbatim>\<open>sentence.audioUrl\<close> as it is. On the editor whose current sentence has a
  clip, playing that clip twice, a minute apart and with other audio on the server the
  second time, requests the same URL twice, with no parameter.
\<close>

theorem playSentenceAudio_fetches_without_cache_parameter:
  "getSentenceAtTime (sentences withClip) (currentTime withClip) = Some clipSentence
   \<and> requests (playSentenceAudio (snapshot withClip) (serving 2 1700000000000) clipSentence withClip)
     = [''/api/download/sentence_1.wav'']
   \<and> requests (playSentenceAudio
        (snapshot (playSentenceAudio (snapshot withClip) (serving 2 1700000000000) clipSentence
           withClip))
        (serving 3 1700000060000) clipSentence
        (playSentenceAudio (snapshot withClip) (serving 2 1700000000000) clipSentence withClip))
     = [''/api/download/sentence_1.wav'', ''/api/download/sentence_1.wav'']
   \<and> requests (loadModifiedFullAudio (snapshot refined) (serving 10 1700000000000) refined)
     = [''/api/download/modified_full.wav?t=1700000000000'']"
proof -
  have "requests refined = []" by code_simp
  then show ?thesis
    by (simp add: withClip_facts playSentenceAudio_requests
        loadModifiedFullAudio_requests [OF sentences_refined] cacheBustedUrl_def serving_def)
qed

subsection \<open>Seeking\<close>

lemma dispatchEnded_position:
  "currentTime (dispatchEnded s) = currentTime s \<or> currentTime (dispatchEnded s) = 0"
  by (simp add: dispatchEnded_def Let_def split: option.splits list.splits)

text \<open>
  What \<open>handleSeek\<close> itself writes. On an editor with a positive duration and a
  progress bar of positive width it sets the position to a value between 0 and the
  duration; a click at or beyond the right end of the bar sets it to exactly the
  duration, a click at or before the left end to 0.
\<close>

lemma handleSeek_clamps:
  assumes "0 < audioDuration r" and "0 < rect_width e"
  shows "\<exists>s'. handleSeek r e s = Some s'
           \<and> 0 \<le> currentTime s' \<and> currentTime s' \<le> audioDuration r
           \<and> (rect_left e + rect_width e \<le> clientX e \<longrightarrow> currentTime s' = audioDuration r)
           \<and> (clientX e \<le> rect_left e \<longrightarrow> currentTime s' = 0)
           \<and> 0 \<le> currentTime (dispatchEnded s')
           \<and> currentTime (dispatchEnded s') \<le> audioDuration r"
proof -
  define pct where "pct = max 0 (min 1 ((clientX e - rect_left e) / rect_width e))"
  have range: "0 \<le> pct" "pct \<le> 1" by (simp_all add: pct_def)
  have p: "percentage (clientX e - rect_left e) (rect_width e) = Some pct"
    using assms by (simp add: percentage_def pct_def)
  have hi: "pct * audioDuration r \<le> audioDuration r"
    using range assms by (simp add: mult_left_le_one_le)
  have lo: "0 \<le> pct * audioDuration r"
    using range assms by simp
  have full: "pct = 1" if "rect_left e + rect_width e \<le> clientX e"
  proof -
    from that assms have "1 \<le> (clientX e - rect_left e) / rect_width e" by simp
    then show ?thesis by (simp add: pct_def)
  qed
  have zero: "pct = 0" if "clientX e \<le> rect_left e"
  proof -
    from that assms have "(clientX e - rect_left e) / rect_width e \<le> 0"
      by (simp add: divide_le_0_iff)
    then show ?thesis by (simp add: pct_def)
  qed
  have "\<exists>s'. handleSeek r e s = Some s' \<and> currentTime s' = pct * audioDuration r"
    using assms p by (cases "isPlaying r") (simp_all add: handleSeek_def Let_def)
  then obtain s' where s': "handleSeek r e s = Some s'" "currentTime s' = pct * audioDuration r"
    by blast
  have "0 \<le> currentTime (dispatchEnded s')" "currentTime (dispatchEnded s') \<le> audioDuration r"
    using dispatchEnded_position [of s'] s' hi lo assms by auto
  with s' hi lo full zero show ?thesis by auto
qed


section \<open>Properties of the WAV encoder\<close>

lemma length_le16 [simp]: "length (le16 w) = 2"
  by (simp add: le16_def)

lemma store_at_end:
  "length bs \<le> length rest \<Longrightarrow>
   store (length pre) bs (pre @ rest) = Some ((pre @ bs) @ drop (length bs) rest)"
  by (simp add: store_def)

lemma setInt16_at_end:
  "2 \<le> length rest \<Longrightarrow>
   setInt16 (length pre) v (pre @ rest) = Some ((pre @ le16 (toWord v)) @ drop 2 rest)"
  unfolding setInt16_def le16_def Let_def by (subst store_at_end) (simp_all add: numeral_2_eq_2)

lemma length_frameBytes:
  "length (frameBytes ab i channel) = 2 * (numberOfChannels ab - channel)"
  by (simp add: frameBytes_def length_concat le16_def comp_def sum_list_triv)

lemma frameBytes_step:
  "channel < numberOfChannels ab \<Longrightarrow>
   frameBytes ab i channel
   = le16 (toWord (pcm16 (element (channelData ab ! channel) i))) @ frameBytes ab i (channel + 1)"
  by (simp add: frameBytes_def upt_conv_Cons)

lemma frameBytes_done: "\<not> channel < numberOfChannels ab \<Longrightarrow> frameBytes ab i channel = []"
  by (simp add: frameBytes_def)

lemma channelLoop_writes:
  "2 * (numberOfChannels ab - channel) \<le> length rest \<Longrightarrow>
   channelLoop ab i channel (length pre) (pre @ rest)
   = Some (length pre + 2 * (numberOfChannels ab - channel),
           (pre @ frameBytes ab i channel) @ drop (2 * (numberOfChannels ab - channel)) rest)"
proof (induction "numberOfChannels ab - channel" arbitrary: channel pre rest)
  case 0
  then show ?case
    by (subst channelLoop.simps) (simp add: frameBytes_done)
next
  case (Suc k)
  then have lt: "channel < numberOfChannels ab" and k: "k = numberOfChannels ab - (channel + 1)"
    by simp_all
  let ?bs = "le16 (toWord (pcm16 (element (channelData ab ! channel) i)) :: 16 word)"
  have two: "2 \<le> length rest" using Suc.prems lt by simp
  have rest': "2 * (numberOfChannels ab - (channel + 1)) \<le> length (drop 2 rest)"
    using Suc.prems lt by simp
  have "channelLoop ab i channel (length pre) (pre @ rest)
        = channelLoop ab i (channel + 1) (length (pre @ ?bs)) ((pre @ ?bs) @ drop 2 rest)"
    using lt two by (subst channelLoop.simps) (simp add: setInt16_at_end)
  also have "\<dots> = Some (length (pre @ ?bs) + 2 * (numberOfChannels ab - (channel + 1)),
        ((pre @ ?bs) @ frameBytes ab i (channel + 1))
          @ drop (2 * (numberOfChannels ab - (channel + 1))) (drop 2 rest))"
    using Suc.hyps(1) [OF k rest'] .
  also have "\<dots> = Some (length pre + 2 * (numberOfChannels ab - channel),
        (pre @ frameBytes ab i channel) @ drop (2 * (numberOfChannels ab - channel)) rest)"
  proof -
    have "2 * (numberOfChannels ab - channel) = Suc (Suc (2 * (numberOfChannels ab - Suc channel)))"
      using lt by arith
    then show ?thesis by (simp add: frameBytes_step [OF lt])
  qed
  finally show ?case .
qed


lemma length_wavSamples:
  "length (wavSamples ab i) = 2 * numberOfChannels ab * (frames ab - i)"
  by (simp add: wavSamples_def length_concat comp_def length_frameBytes sum_list_triv)

lemma wavSamples_step:
  "i < frames ab \<Longrightarrow> wavSamples ab i = frameBytes ab i 0 @ wavSamples ab (i + 1)"
  by (simp add: wavSamples_def upt_conv_Cons)

lemma wavSamples_done: "\<not> i < frames ab \<Longrightarrow> wavSamples ab i = []"
  by (simp add: wavSamples_def)

lemma frameLoop_writes:
  "2 * numberOfChannels ab * (frames ab - i) \<le> length rest \<Longrightarrow>
   frameLoop ab i (length pre) (pre @ rest)
   = Some (length pre + 2 * numberOfChannels ab * (frames ab - i),
           (pre @ wavSamples ab i) @ drop (2 * numberOfChannels ab * (frames ab - i)) rest)"
proof (induction "frames ab - i" arbitrary: i pre rest)
  case 0
  then show ?case
    by (subst frameLoop.simps) (simp add: wavSamples_done)
next
  case (Suc k)
  then have lt: "i < frames ab" and k: "k = frames ab - (i + 1)"
    by simp_all
  let ?n = "2 * numberOfChannels ab"
  have split: "?n * (frames ab - i) = ?n + ?n * (frames ab - (i + 1))"
    using lt by (metis Suc.hyps(2) k mult_Suc_right)
  have one: "2 * (numberOfChannels ab - 0) \<le> length rest"
    using Suc.prems split by simp
  have rest': "?n * (frames ab - (i + 1)) \<le> length (drop ?n rest)"
    using Suc.prems split by simp
  have len: "length (pre @ frameBytes ab i 0) = length pre + ?n"
    by (simp add: length_frameBytes)
  have "frameLoop ab i (length pre) (pre @ rest)
        = frameLoop ab (i + 1) (length (pre @ frameBytes ab i 0))
            ((pre @ frameBytes ab i 0) @ drop ?n rest)"
    using lt channelLoop_writes [OF one, of i pre]
    by (subst frameLoop.simps) (simp add: length_frameBytes)
  also have "\<dots> = Some (length (pre @ frameBytes ab i 0) + ?n * (frames ab - (i + 1)),
        ((pre @ frameBytes ab i 0) @ wavSamples ab (i + 1))
          @ drop (?n * (frames ab - (i + 1))) (drop ?n rest))"
    using Suc.hyps(1) [OF k rest'] .
  also have "\<dots> = Some (length pre + ?n * (frames ab - i),
        (pre @ wavSamples ab i) @ drop (?n * (frames ab - i)) rest)"
    using split by (simp add: wavSamples_step [OF lt] length_frameBytes add.commute)
  finally show ?case .
qed


lemma writeHeader_fills:
  "writeHeader ab (replicate (44 + n) 0) = Some (wavHeader ab @ replicate n 0)"
  by (simp add: writeHeader_def wavHeader_def store_def setUint8_def setUint16_def
      setUint32_def Let_def ascii_def le16_def le32_def)


lemma length_wavHeader: "length (wavHeader ab) = 44"
  by (simp add: wavHeader_def Let_def ascii_def le16_def le32_def)

lemma pcm16_finite:
  "pcm16 (Num x) = Num (if max (- 1) (min 1 x) < 0 then max (- 1) (min 1 x) * 32768
                        else max (- 1) (min 1 x) * 32767)"
  by (auto simp: pcm16_def negative_def times_def Let_def min_def max_def)

lemma pcm16_bounds:
  fixes x :: real
  defines "v \<equiv> (if max (- 1) (min 1 x) < 0 then max (- 1) (min 1 x) * 32768
                  else max (- 1) (min 1 x) * 32767)"
  shows "- 32768 \<le> v" and "v \<le> 32767"
proof -
  have c: "- 1 \<le> max (- 1) (min 1 x)" "max (- 1) (min 1 x) \<le> 1" by simp_all
  show "- 32768 \<le> v" using c unfolding v_def by (auto split: if_splits)
  show "v \<le> 32767" using c unfolding v_def by (auto split: if_splits)
qed

lemma trunc_bounds:
  assumes "- 32768 \<le> v" and "v \<le> 32767"
  shows "- 32768 \<le> trunc v" and "trunc v \<le> 32767"
  using assms by (auto simp: trunc_def le_floor_iff ceiling_le_iff le_ceiling_iff floor_le_iff)

lemma toWord_no_wrap:
  assumes "- 32768 \<le> v" and "v \<le> 32767"
  shows "sint (toWord (Num v) :: 16 word) = trunc v"
proof -
  from trunc_bounds [OF assms] have "- (2 ^ 15) \<le> trunc v" "trunc v < 2 ^ 15" by simp_all
  then have "signed_take_bit 15 (trunc v) = trunc v"
    by (rule signed_take_bit_int_eq_self)
  then show ?thesis by (simp add: toWord_def signed_of_int)
qed

text \<open>
  C10. A finite sample \<open>x\<close> is clamped to \<open>[-1, 1]\<close> and scaled by 0x8000 when the
  clamped value is negative and by 0x7FFF otherwise; the result, truncated, lies in
  \<open>[-32768, 32767]\<close> and is the signed value of the 16-bit word written (nothing wraps
  around). Infinite samples are written as 32767 and -32768, \<^verbatim>\<open>NaN\<close> as 0. On the
  zero-filled buffer of \<open>44 + frames * numberOfChannels * 2\<close> bytes no write is out of
  range: the header writes fill the first 44 bytes, the sample loop starts at offset 44
  and ends at the offset \<open>44 + frames * numberOfChannels * 2\<close>, the size of the buffer,
  and the blob is the 44 header bytes followed by two bytes for every sample.
\<close>

theorem audioBufferToWav_range_and_layout:
  "(\<exists>v. pcm16 (Num x) = Num v
        \<and> v = (if max (- 1) (min 1 x) < 0 then max (- 1) (min 1 x) * 32768
                else max (- 1) (min 1 x) * 32767)
        \<and> - 32768 \<le> trunc v \<and> trunc v \<le> 32767
        \<and> sint (toWord (Num v) :: 16 word) = trunc v)
   \<and> pcm16 PosInfinity = Num 32767 \<and> pcm16 NegInfinity = Num (- 32768)
   \<and> pcm16 NaN = NaN \<and> sint (toWord NaN :: 16 word) = 0
   \<and> writeHeader ab (replicate (44 + frames ab * numberOfChannels ab * 2) 0)
       = Some (wavHeader ab @ replicate (frames ab * numberOfChannels ab * 2) 0)
   \<and> frameLoop ab 0 44 (wavHeader ab @ replicate (frames ab * numberOfChannels ab * 2) 0)
       = Some (44 + frames ab * numberOfChannels ab * 2, wavHeader ab @ wavSamples ab 0)
   \<and> audioBufferToWav ab = Some (wavHeader ab @ wavSamples ab 0)
   \<and> length (wavHeader ab) = 44
   \<and> length (wavSamples ab 0) = frames ab * numberOfChannels ab * 2"
proof -
  let ?n = "frames ab * numberOfChannels ab * 2"
  have sample: "\<exists>v. pcm16 (Num x) = Num v
        \<and> v = (if max (- 1) (min 1 x) < 0 then max (- 1) (min 1 x) * 32768
                else max (- 1) (min 1 x) * 32767)
        \<and> - 32768 \<le> trunc v \<and> trunc v \<le> 32767
        \<and> sint (toWord (Num v) :: 16 word) = trunc v"
  proof -
    define v where "v = (if max (- 1) (min 1 x) < 0 then max (- 1) (min 1 x) * 32768
                else max (- 1) (min 1 x) * 32767)"
    have b: "- 32768 \<le> v" "v \<le> 32767"
      unfolding v_def by (rule pcm16_bounds)+
    have "pcm16 (Num x) = Num v"
      unfolding v_def by (rule pcm16_finite)
    with trunc_bounds [OF b] toWord_no_wrap [OF b] show ?thesis
      unfolding v_def by blast
  qed
  have special: "pcm16 PosInfinity = Num 32767" "pcm16 NegInfinity = Num (- 32768)"
    "pcm16 NaN = NaN" "sint (toWord NaN :: 16 word) = 0"
    by (simp_all add: pcm16_def negative_def times_def toWord_def)
  have header: "writeHeader ab (replicate (44 + ?n) 0) = Some (wavHeader ab @ replicate ?n 0)"
    by (rule writeHeader_fills)
  have "frameLoop ab 0 (length (wavHeader ab)) (wavHeader ab @ replicate ?n 0)
        = Some (length (wavHeader ab) + 2 * numberOfChannels ab * (frames ab - 0),
                (wavHeader ab @ wavSamples ab 0)
                  @ drop (2 * numberOfChannels ab * (frames ab - 0)) (replicate ?n 0))"
    by (rule frameLoop_writes) simp
  then have samples: "frameLoop ab 0 44 (wavHeader ab @ replicate ?n 0)
        = Some (44 + ?n, wavHeader ab @ wavSamples ab 0)"
    by (simp add: length_wavHeader mult.commute mult.left_commute)
  have whole: "audioBufferToWav ab = Some (wavHeader ab @ wavSamples ab 0)"
    by (simp add: audioBufferToWav_def Let_def header samples)
  have len: "length (wavSamples ab 0) = ?n"
    by (simp add: length_wavSamples mult.commute mult.left_commute)
  from sample special header samples whole len length_wavHeader show ?thesis
    by blast
qed


text \<open>Two stereo frames: 0.5 and 2, then -1 and \<^verbatim>\<open>NaN\<close>.\<close>

lemma wavSamples_example:
  "wavSamples \<lparr>sampleRate = 8000, frames = 2,
       channelData = [[Num 0.5, Num (- 1)], [Num 2, NaN]], buffer_duration = 1 / 4000\<rparr> 0
   = [0xFF, 0x3F, 0xFF, 0x7F, 0x00, 0x80, 0x00, 0x00]"
  by (simp add: wavSamples_def frameBytes_def numberOfChannels_def upt_rec element_def
      pcm16_def negative_def times_def toWord_def trunc_def le16_def)

end
